theory Spec2Isabelle
  imports Complex_Main "HOL-Library.Word"
begin

unbundle bit_operations_syntax

section \<open>Data model\<close>

text \<open>
  Floating-point numbers (\<open>Double_t\<close>, \<open>Float_t\<close>) are modelled as \<open>real\<close>: the
  comparisons and the branch structure of the code are kept, rounding is not.
  \<open>Int_t\<close> values that only carry identifiers and indices (\<open>PID\<close>, \<open>M1\<close>, ...) are
  \<open>int\<close>; the integers the code packs, shifts and masks are machine words.
\<close>

text \<open>
  \<open>TLorentzVector\<close> (ROOT), seen through the accessors the modules use:
  \<open>SetPtEtaPhiE\<close>, \<open>Pt()\<close>, \<open>Eta()\<close>, \<open>Phi()\<close>, \<open>E()\<close>; \<open>T()\<close> is \<open>E()\<close>.
\<close>

record TLorentzVector =
  Pt :: real
  Eta :: real
  Phi :: real
  E :: real

definition SetPtEtaPhiE :: "real \<Rightarrow> real \<Rightarrow> real \<Rightarrow> real \<Rightarrow> TLorentzVector" where
  "SetPtEtaPhiE pt eta phi e = \<lparr>Pt = pt, Eta = eta, Phi = phi, E = e\<rparr>"

text \<open>
  \<open>class Candidate\<close> of \<open>classes/DelphesClasses.h\<close>, restricted to the members the three
  modules read or write. \<open>NSubJets\<close>, \<open>MassDrop\<close>, \<open>WTag\<close>, \<open>TopTag\<close> and \<open>HTag\<close> are the
  members that \<open>FastJetFinder.cc\<close> writes. The flavour members are \<open>UInt_t\<close> in the header;
  they hold absolute PID codes and are \<open>int\<close> here. The composition (\<open>fArray\<close>, filled by
  \<open>AddCandidate\<close>) holds the positions of the children in the input array they were taken
  from.
\<close>

record Candidate =
  Momentum :: TLorentzVector
  Position :: TLorentzVector
  Area :: TLorentzVector
  PID :: int
  Status :: int
  M1 :: int
  M2 :: int
  D1 :: int
  D2 :: int
  Charge :: int
  IsPU :: int
  BTagAlgo :: "32 word"
  BTagDefault :: "32 word"
  BTagPhysics :: "32 word"
  BTagNearest2 :: "32 word"
  BTagNearest3 :: "32 word"
  BTagHeaviest :: "32 word"
  BTagHighestPt :: "32 word"
  flavourAlgo :: int
  flavourDefault :: int
  flavourPhysics :: int
  flavourNearest2 :: int
  flavourNearest3 :: int
  flavourHeaviest :: int
  flavourHighestPt :: int
  Eem :: real
  Ehad :: real
  Tau1 :: real
  Tau2 :: real
  Tau3 :: real
  TrimmedMass :: real
  NSubJets :: nat
  MassDrop :: real
  WTag :: int
  TopTag :: int
  HTag :: int
  nTimes :: int
  Edges :: "real list"
  DeltaEta :: real
  DeltaPhi :: real
  ecal_E_t :: "(real \<times> real) list"
  fArray :: "nat list"

text \<open>
  Modelled from the spec: \<open>DelphesFactory::NewCandidate\<close> and the constructor and
  \<open>Clear\<close> of \<open>Candidate\<close> are declared in \<open>DelphesClasses.h\<close>, their definitions are
  not among the source files. The spec says that \<open>NewCandidate()\<close> "produces a
  zero-initialised object": every number is 0, every list is empty.
\<close>

definition zero_vector :: TLorentzVector where
  "zero_vector = \<lparr>Pt = 0, Eta = 0, Phi = 0, E = 0\<rparr>"

definition NewCandidate :: Candidate where
  "NewCandidate = \<lparr>Momentum = zero_vector, Position = zero_vector, Area = zero_vector,
     PID = 0, Status = 0, M1 = 0, M2 = 0, D1 = 0, D2 = 0, Charge = 0, IsPU = 0,
     BTagAlgo = 0, BTagDefault = 0, BTagPhysics = 0, BTagNearest2 = 0, BTagNearest3 = 0,
     BTagHeaviest = 0, BTagHighestPt = 0,
     flavourAlgo = 0, flavourDefault = 0, flavourPhysics = 0, flavourNearest2 = 0,
     flavourNearest3 = 0, flavourHeaviest = 0, flavourHighestPt = 0,
     Eem = 0, Ehad = 0, Tau1 = 0, Tau2 = 0, Tau3 = 0, TrimmedMass = 0, NSubJets = 0,
     MassDrop = 0, WTag = 0, TopTag = 0, HTag = 0, nTimes = 0, Edges = [0, 0, 0, 0],
     DeltaEta = 0, DeltaPhi = 0, ecal_E_t = [], fArray = []\<rparr>"

text \<open>
  Modelled from the spec: the definition of \<open>Candidate::Clone\<close> is not among the source
  files. The spec: "shallow copy of attributes with a fresh empty composition".
\<close>

definition Clone :: "Candidate \<Rightarrow> Candidate" where
  "Clone c = c\<lparr>fArray := []\<rparr>"

definition AddCandidate :: "nat \<Rightarrow> Candidate \<Rightarrow> Candidate" where
  "AddCandidate child c = c\<lparr>fArray := fArray c @ [child]\<rparr>"

text \<open>What stops a \<open>Process\<close> call instead of returning.\<close>

datatype error =
    NullPointer    \<comment> \<open>\<open>TObjArray::At\<close> gave 0 and the result was dereferenced\<close>
  | EndIterator    \<comment> \<open>\<open>map::find\<close> gave \<open>end()\<close> and the result was dereferenced\<close>
  | OutOfRange     \<comment> \<open>\<open>vector::at\<close> threw\<close>

text \<open>\<open>TObjArray::At(i)\<close>: the element, or 0 when \<open>i\<close> is outside the array.\<close>

definition At :: "'a list \<Rightarrow> int \<Rightarrow> 'a option" where
  "At arr i = (if 0 \<le> i \<and> i < int (length arr) then Some (arr ! nat i) else None)"

text \<open>\<open>DelphesFormula::Eval(pt, eta, phi, energy)\<close>: a compiled formula is its function.\<close>

type_synonym DelphesFormula = "real \<Rightarrow> real \<Rightarrow> real \<Rightarrow> real \<Rightarrow> real"

section \<open>Calorimeter\<close>

subsection \<open>Bin lookup\<close>

text \<open>
  \<open>std::lower_bound(first, last, val)\<close> on a vector of doubles: the bisection of the
  standard library, with \<open>first\<close> as a position and \<open>len\<close> the length of the range left.
\<close>

function lower_bound_loop :: "real list \<Rightarrow> real \<Rightarrow> nat \<Rightarrow> nat \<Rightarrow> nat" where
  "lower_bound_loop xs val first len =
     (if len = 0 then first
      else if xs ! (first + len div 2) < val
           then lower_bound_loop xs val (first + len div 2 + 1) (len - len div 2 - 1)
           else lower_bound_loop xs val first (len div 2))"
  by pat_completeness auto
termination
  by (relation "measure (\<lambda>(xs, val, first, len). len)") auto

declare lower_bound_loop.simps [simp del]

definition lower_bound :: "real list \<Rightarrow> real \<Rightarrow> nat" where
  "lower_bound xs val = lower_bound_loop xs val 0 (length xs)"

text \<open>
  Lines 215-217 and 260-262 (and 223-225, 268-270 for \<open>phi\<close>):
  \<^verbatim>\<open>it = lower_bound(bins.begin(), bins.end(), x);
  if(it == bins.begin() || it == bins.end()) continue;
  bin = distance(bins.begin(), it);\<close>
  \<open>None\<close> is the \<open>continue\<close>: the track or particle makes no hit.
\<close>

definition find_bin :: "real list \<Rightarrow> real \<Rightarrow> nat option" where
  "find_bin bins x =
     (let it = lower_bound bins x
      in if it = 0 \<or> it = length bins then None else Some it)"

text \<open>The \<open>eta\<close> bin, then the \<open>phi\<close> bin among the \<open>phi\<close> edges of that \<open>eta\<close> bin.\<close>

definition find_eta_phi_bin :: "real list \<Rightarrow> real list list \<Rightarrow> real \<Rightarrow> real \<Rightarrow> (nat \<times> nat) option" where
  "find_eta_phi_bin etaBins phiBinss eta phi =
     (case find_bin etaBins eta of
        None \<Rightarrow> None
      | Some etaBin \<Rightarrow>
          (case find_bin (phiBinss ! etaBin) phi of
             None \<Rightarrow> None
           | Some phiBin \<Rightarrow> Some (etaBin, phiBin)))"

subsection \<open>Log-normal smearing\<close>

text \<open>
  \<open>Calorimeter::LogNormal\<close>. \<open>gRandom->Gaus(0, 1)\<close> is the \<open>n\<close>-th value of the stream
  \<open>gaus\<close> of standard normal draws; the function returns the number of draws made
  so far with its value.
\<close>

definition LogNormal :: "real \<Rightarrow> real \<Rightarrow> (nat \<Rightarrow> real) \<Rightarrow> nat \<Rightarrow> real \<times> nat" where
  "LogNormal mean sigma gaus n =
     (if mean > 0.0
      then (let b = sqrt (ln (1.0 + (sigma * sigma) / (mean * mean)));
                a = ln mean - 0.5 * b * b
            in (exp (a + b * gaus n), Suc n))
      else (0.0, n))"

subsection \<open>Module state\<close>

text \<open>
  The members of \<open>class Calorimeter\<close>: what \<open>Init\<close> reads from the configuration, the
  two input arrays, the per-event vectors, the tower under construction, the four
  output arrays, and the global generator \<open>gRandom\<close> (its stream of \<open>Gaus(0, 1)\<close> values
  and how many of them have been drawn).
\<close>

record Calorimeter =
  fEtaBins :: "real list"
  fPhiBins :: "real list list"
  fFractionMap :: "int \<rightharpoonup> real \<times> real"
  fECalResolutionFormula :: DelphesFormula
  fHCalResolutionFormula :: DelphesFormula
  fTimingEMin :: real
  electronsFromTrack :: bool
  fParticleInputArray :: "Candidate list"
  fTrackInputArray :: "Candidate list"
  fTowerHits :: "64 word list"
  fTowerECalFractions :: "real list"
  fTowerHCalFractions :: "real list"
  fTrackECalFractions :: "real list"
  fTrackHCalFractions :: "real list"
  fParticlePDGId :: "int list"
  fTrackPDGId :: "int list"
  fTower :: "Candidate option"
  fTowerEta :: real
  fTowerPhi :: real
  fTowerEdges :: "real list"
  fTowerECalEnergy :: real
  fTowerHCalEnergy :: real
  fTrackECalEnergy :: real
  fTrackHCalEnergy :: real
  fTowerTrackHits :: int
  fTowerPhotonHits :: int
  fTowerTrackArray :: "Candidate list"
  fTowerOutputArray :: "Candidate list"
  fPhotonOutputArray :: "Candidate list"
  fEFlowTrackOutputArray :: "Candidate list"
  fEFlowTowerOutputArray :: "Candidate list"
  gRandom :: "nat \<Rightarrow> real"
  gRandomDraws :: nat

subsection \<open>Tower hits\<close>

text \<open>
  Lines 230 and 276:
  \<^verbatim>\<open>towerHit = (Long64_t(etaBin) << 48) | (Long64_t(phiBin) << 32)
           | (Long64_t(flags) << 24) | Long64_t(number);\<close>
  \<open>etaBin\<close>, \<open>phiBin\<close> and \<open>flags\<close> are \<open>Short_t\<close> (the distance found by the lookup is
  narrowed to 16 bits), \<open>number\<close> is \<open>Int_t\<close>; each is sign-extended to 64 bits.
\<close>

definition towerHit :: "nat \<Rightarrow> nat \<Rightarrow> 16 word \<Rightarrow> nat \<Rightarrow> 64 word" where
  "towerHit etaBin phiBin flags number =
     push_bit 48 (scast (word_of_nat etaBin :: 16 word))
     OR push_bit 32 (scast (word_of_nat phiBin :: 16 word))
     OR push_bit 24 (scast flags)
     OR scast (word_of_nat number :: 32 word)"

text \<open>Lines 290-292: what the scan reads back from a hit.\<close>

definition hit_flags :: "64 word \<Rightarrow> 16 word" where
  "hit_flags hit = ucast (signed_drop_bit 24 hit AND 0xFF)"

definition hit_number :: "64 word \<Rightarrow> int" where
  "hit_number hit = uint (hit AND 0xFFFFFF)"

definition hitEtaPhi :: "64 word \<Rightarrow> 64 word" where
  "hitEtaPhi hit = signed_drop_bit 32 hit"

text \<open>
  Lines 303-304, for a new tower. The bin numbers read back are below \<open>2\<^sup>1\<^sup>5\<close> for
  every hit made from fewer than \<open>2\<^sup>1\<^sup>5\<close> edges, so the \<open>Short_t\<close> variables hold them.
\<close>

definition hit_phiBin :: "64 word \<Rightarrow> nat" where
  "hit_phiBin hit = unat (signed_drop_bit 32 hit AND 0xFFFF)"

definition hit_etaBin :: "64 word \<Rightarrow> nat" where
  "hit_etaBin hit = unat (signed_drop_bit 48 hit AND 0xFFFF)"

text \<open>
  \<open>fFractionMap.find(pdgCode)\<close>, and \<open>find(0)\<close> when that is \<open>end()\<close>. \<open>Init\<close> always
  stores an entry for 0; without one the iterator dereferenced is \<open>end()\<close>.
\<close>

definition find_fraction :: "(int \<rightharpoonup> real \<times> real) \<Rightarrow> int \<Rightarrow> error + real \<times> real" where
  "find_fraction m pdgCode =
     (case m pdgCode of
        Some fr \<Rightarrow> Inr fr
      | None \<Rightarrow> (case m 0 of Some fr \<Rightarrow> Inr fr | None \<Rightarrow> Inl EndIterator))"

text \<open>
  The loop over the tracks (lines 195-233); \<open>number\<close> is the position of \<open>track\<close>
  in the input array.
\<close>

fun track_loop :: "Calorimeter \<Rightarrow> nat \<Rightarrow> Candidate list \<Rightarrow> error + Calorimeter" where
  "track_loop s number [] = Inr s"
| "track_loop s number (track # rest) =
     (let pdgCode = \<bar>PID track\<bar> in
      case find_fraction (fFractionMap s) pdgCode of
        Inl e \<Rightarrow> Inl e
      | Inr (ecalFraction, hcalFraction) \<Rightarrow>
          (let s1 = s\<lparr>fTrackECalFractions := fTrackECalFractions s @ [ecalFraction],
                      fTrackHCalFractions := fTrackHCalFractions s @ [hcalFraction],
                      fTrackPDGId := fTrackPDGId s @ [pdgCode]\<rparr>
           in case find_eta_phi_bin (fEtaBins s) (fPhiBins s)
                     (Eta (Position track)) (Phi (Position track)) of
                None \<Rightarrow> track_loop s1 (number + 1) rest
              | Some (etaBin, phiBin) \<Rightarrow>
                  track_loop (s1\<lparr>fTowerHits := fTowerHits s1 @ [towerHit etaBin phiBin 1 number]\<rparr>)
                    (number + 1) rest))"

text \<open>The loop over the particles (lines 238-278).\<close>

fun particle_loop :: "Calorimeter \<Rightarrow> nat \<Rightarrow> Candidate list \<Rightarrow> error + Calorimeter" where
  "particle_loop s number [] = Inr s"
| "particle_loop s number (particle # rest) =
     (let pdgCode = \<bar>PID particle\<bar> in
      case find_fraction (fFractionMap s) pdgCode of
        Inl e \<Rightarrow> Inl e
      | Inr (ecalFraction, hcalFraction) \<Rightarrow>
          (let s1 = s\<lparr>fTowerECalFractions := fTowerECalFractions s @ [ecalFraction],
                      fTowerHCalFractions := fTowerHCalFractions s @ [hcalFraction],
                      fParticlePDGId := fParticlePDGId s @ [pdgCode]\<rparr>
           in if ecalFraction < 1 / 10 ^ 9 \<and> hcalFraction < 1 / 10 ^ 9
              then particle_loop s1 (number + 1) rest
              else case find_eta_phi_bin (fEtaBins s) (fPhiBins s)
                          (Eta (Position particle)) (Phi (Position particle)) of
                     None \<Rightarrow> particle_loop s1 (number + 1) rest
                   | Some (etaBin, phiBin) \<Rightarrow>
                       (let flags = push_bit 1 (of_bool (pdgCode = 11 \<or> pdgCode = 22))
                        in particle_loop
                             (s1\<lparr>fTowerHits := fTowerHits s1 @ [towerHit etaBin phiBin flags number]\<rparr>)
                             (number + 1) rest)))"

subsection \<open>Finalizing a tower\<close>

text \<open>The time loop of \<open>FinalizeTower\<close> (lines 436-441): \<open>(tow_sumT, tow_sumW, nTimes)\<close>.\<close>

fun tower_time :: "(real \<times> real) list \<Rightarrow> real \<times> real \<times> int \<Rightarrow> real \<times> real \<times> int" where
  "tower_time [] acc = acc"
| "tower_time ((e, t) # rest) (tow_sumT, tow_sumW, n) =
     tower_time rest (tow_sumT + sqrt e * t, tow_sumW + sqrt e, n + 1)"

text \<open>
  The two smeared energies of the tower under construction (lines 418-422), with the
  number of random draws made after them.
\<close>

definition tower_energies :: "Calorimeter \<Rightarrow> real \<times> real \<times> nat" where
  "tower_energies s =
     (let ecalSigma = fECalResolutionFormula s 0.0 (fTowerEta s) 0.0 (fTowerECalEnergy s);
          (ecalEnergy, n1) = LogNormal (fTowerECalEnergy s) ecalSigma (gRandom s) (gRandomDraws s);
          hcalSigma = fHCalResolutionFormula s 0.0 (fTowerEta s) 0.0 (fTowerHCalEnergy s);
          (hcalEnergy, n2) = LogNormal (fTowerHCalEnergy s) hcalSigma (gRandom s) n1
      in (ecalEnergy, hcalEnergy, n2))"

text \<open>The tower as lines 424-457 leave it, from the candidate \<open>tower\<close> that \<open>fTower\<close> points to.\<close>

definition finalized_tower :: "Calorimeter \<Rightarrow> Candidate \<Rightarrow> Candidate" where
  "finalized_tower s tower =
     (let (ecalEnergy, hcalEnergy, n) = tower_energies s;
          energy = ecalEnergy + hcalEnergy;
          eta = fTowerEta s;
          phi = fTowerPhi s;
          pt = energy / cosh eta;
          (tow_sumT, tow_sumW, times) = tower_time (ecal_E_t tower) (0, 0, 0)
      in tower\<lparr>nTimes := times,
               Position := (if tow_sumW > 0 then SetPtEtaPhiE 1.0 eta phi (tow_sumT / tow_sumW)
                            else SetPtEtaPhiE 1.0 eta phi 999999),
               Momentum := SetPtEtaPhiE pt eta phi energy,
               Eem := ecalEnergy,
               Ehad := hcalEnergy,
               Edges := [fTowerEdges s ! 0, fTowerEdges s ! 1, fTowerEdges s ! 2, fTowerEdges s ! 3]\<rparr>)"

text \<open>\<open>Calorimeter::FinalizeTower\<close> (lines 409-492).\<close>

definition FinalizeTower :: "Calorimeter \<Rightarrow> Calorimeter" where
  "FinalizeTower s =
     (case fTower s of
        None \<Rightarrow> s
      | Some tower0 \<Rightarrow>
          (let (ecalEnergy, hcalEnergy, n) = tower_energies s;
               energy = ecalEnergy + hcalEnergy;
               eta = fTowerEta s;
               phi = fTowerPhi s;
               tower = finalized_tower s tower0;
               s1 = s\<lparr>gRandomDraws := n, fTower := Some tower\<rparr>;
               s2 = (if energy > 0.0
                     then (let s1' = (if fTowerPhotonHits s1 > 0 \<and> fTowerTrackHits s1 = 0
                                      then s1\<lparr>fPhotonOutputArray := fPhotonOutputArray s1 @ [tower]\<rparr>
                                      else s1)
                           in s1'\<lparr>fTowerOutputArray := fTowerOutputArray s1' @ [tower]\<rparr>)
                     else s1);
               s3 = s2\<lparr>fEFlowTrackOutputArray := fEFlowTrackOutputArray s2 @ fTowerTrackArray s2\<rparr>;
               ecalEnergy1 = ecalEnergy - fTrackECalEnergy s;
               ecalEnergy2 = (if ecalEnergy1 < 0.0 then 0.0 else ecalEnergy1);
               hcalEnergy1 = hcalEnergy - fTrackHCalEnergy s;
               hcalEnergy2 = (if hcalEnergy1 < 0.0 then 0.0 else hcalEnergy1);
               energy2 = ecalEnergy2 + hcalEnergy2
           in if energy2 > 0.0
              then s3\<lparr>fEFlowTowerOutputArray := fEFlowTowerOutputArray s3 @
                        [(Clone tower)\<lparr>Momentum := SetPtEtaPhiE (energy2 / cosh eta) eta phi energy2,
                                        Eem := ecalEnergy2, Ehad := hcalEnergy2\<rparr>]\<rparr>
              else s3))"

subsection \<open>The scan over the sorted hits\<close>

text \<open>
  Lines 293-328: the first hit of a new \<open>(etaBin, phiBin)\<close> finalizes the previous tower
  and starts a new one.
\<close>

definition new_tower :: "Calorimeter \<Rightarrow> 64 word \<Rightarrow> Calorimeter" where
  "new_tower s hit =
     (let s1 = FinalizeTower s;
          phiBin = hit_phiBin hit;
          etaBin = hit_etaBin hit;
          phiBins = fPhiBins s1 ! etaBin
      in s1\<lparr>fTower := Some NewCandidate,
            fTowerEta := 0.5 * (fEtaBins s1 ! (etaBin - 1) + fEtaBins s1 ! etaBin),
            fTowerPhi := 0.5 * (phiBins ! (phiBin - 1) + phiBins ! phiBin),
            fTowerEdges := [fEtaBins s1 ! (etaBin - 1), fEtaBins s1 ! etaBin,
                            phiBins ! (phiBin - 1), phiBins ! phiBin],
            fTowerECalEnergy := 0.0,
            fTowerHCalEnergy := 0.0,
            fTrackECalEnergy := 0.0,
            fTrackHCalEnergy := 0.0,
            fTowerTrackHits := 0,
            fTowerPhotonHits := 0,
            fTowerTrackArray := []\<rparr>)"

text \<open>Lines 331-368: a hit whose flags have bit 0 set is a track.\<close>

definition track_hit :: "Calorimeter \<Rightarrow> int \<Rightarrow> error + Calorimeter" where
  "track_hit s number =
     (case At (fTrackInputArray s) number of
        None \<Rightarrow> Inl NullPointer
      | Some track \<Rightarrow>
          (let ecalEnergy = E (Momentum track) * fTrackECalFractions s ! nat number;
               hcalEnergy = E (Momentum track) * fTrackHCalFractions s ! nat number;
               s1 = s\<lparr>fTowerTrackHits := fTowerTrackHits s + 1,
                      fTrackECalEnergy := fTrackECalEnergy s + ecalEnergy,
                      fTrackHCalEnergy := fTrackHCalEnergy s + hcalEnergy\<rparr>;
               s2 = (case fTower s1 of
                       Some tower \<Rightarrow>
                         (if ecalEnergy > fTimingEMin s1 \<and> electronsFromTrack s1
                          then s1\<lparr>fTower := Some (tower\<lparr>ecal_E_t := ecal_E_t tower @
                                                [(ecalEnergy, E (Position track))]\<rparr>)\<rparr>
                          else s1)
                     | None \<Rightarrow> s1)
           in Inr (s2\<lparr>fTowerTrackArray := fTowerTrackArray s2 @ [track]\<rparr>)))"

text \<open>Lines 370-400: any other hit is a particle.\<close>

definition particle_hit :: "Calorimeter \<Rightarrow> 16 word \<Rightarrow> int \<Rightarrow> error + Calorimeter" where
  "particle_hit s flags number =
     (let s0 = (if flags AND 2 \<noteq> 0 then s\<lparr>fTowerPhotonHits := fTowerPhotonHits s + 1\<rparr> else s)
      in case At (fParticleInputArray s0) number of
           None \<Rightarrow> Inl NullPointer
         | Some particle \<Rightarrow>
             (let ecalEnergy = E (Momentum particle) * fTowerECalFractions s0 ! nat number;
                  hcalEnergy = E (Momentum particle) * fTowerHCalFractions s0 ! nat number;
                  s1 = s0\<lparr>fTowerECalEnergy := fTowerECalEnergy s0 + ecalEnergy,
                          fTowerHCalEnergy := fTowerHCalEnergy s0 + hcalEnergy\<rparr>
              in case fTower s1 of
                   None \<Rightarrow> Inl NullPointer
                 | Some tower \<Rightarrow>
                     (let tower1 = (if ecalEnergy > fTimingEMin s1
                                        \<and> (\<bar>PID particle\<bar> \<noteq> 11 \<or> \<not> electronsFromTrack s1)
                                    then tower\<lparr>ecal_E_t := ecal_E_t tower @
                                           [(ecalEnergy, E (Position particle))]\<rparr>
                                    else tower)
                      in if nat number < length (fParticlePDGId s1)
                         then Inr (s1\<lparr>fTower := Some (AddCandidate (nat number)
                                      (tower1\<lparr>PID := fParticlePDGId s1 ! nat number\<rparr>))\<rparr>)
                         else Inl OutOfRange)))"

text \<open>The loop over the hits (lines 288-401), with the local \<open>towerEtaPhi\<close>.\<close>

fun hit_loop :: "Calorimeter \<Rightarrow> 64 word \<Rightarrow> 64 word list \<Rightarrow> error + Calorimeter" where
  "hit_loop s towerEtaPhi [] = Inr s"
| "hit_loop s towerEtaPhi (hit # rest) =
     (let flags = hit_flags hit;
          number = hit_number hit;
          s1 = (if towerEtaPhi \<noteq> hitEtaPhi hit then new_tower s hit else s)
      in case (if flags AND 1 \<noteq> 0 then track_hit s1 number else particle_hit s1 flags number) of
           Inl e \<Rightarrow> Inl e
         | Inr s2 \<Rightarrow> hit_loop s2 (hitEtaPhi hit) rest)"

text \<open>
  \<open>Calorimeter::Process\<close>, lines 183-283: the two loops, then \<open>sort\<close>, which puts the
  \<open>Long64_t\<close> values in ascending order, that is in the order of their signed readings.
\<close>

definition Calorimeter_hits :: "Calorimeter \<Rightarrow> error + Calorimeter" where
  "Calorimeter_hits s0 =
     (let s = s0\<lparr>fTowerHits := [], fTowerECalFractions := [], fTowerHCalFractions := [],
                 fTrackECalFractions := [], fTrackHCalFractions := [],
                 fParticlePDGId := [], fTrackPDGId := []\<rparr>
      in case track_loop s 0 (fTrackInputArray s) of
           Inl e \<Rightarrow> Inl e
         | Inr s1 \<Rightarrow>
             (case particle_loop s1 0 (fParticleInputArray s1) of
                Inl e \<Rightarrow> Inl e
              | Inr s2 \<Rightarrow> Inr (s2\<lparr>fTowerHits := sort_key sint (fTowerHits s2)\<rparr>)))"

text \<open>
  Lines 286-401: the scan, up to the last hit. \<open>Calorimeter_Process\<close> then finalizes the
  last tower (line 404).
\<close>

definition Calorimeter_scan :: "Calorimeter \<Rightarrow> error + Calorimeter" where
  "Calorimeter_scan s0 =
     (case Calorimeter_hits s0 of
        Inl e \<Rightarrow> Inl e
      | Inr s \<Rightarrow> hit_loop (s\<lparr>fTower := None\<rparr>) 0 (fTowerHits s))"

definition Calorimeter_Process :: "Calorimeter \<Rightarrow> error + Calorimeter" where
  "Calorimeter_Process s0 =
     (case Calorimeter_scan s0 of Inl e \<Rightarrow> Inl e | Inr s \<Rightarrow> Inr (FinalizeTower s))"

text \<open>
  \<open>Calorimeter::Init\<close>, the part that reads \<open>EnergyFraction\<close> (lines 104-117): the default
  entry for 0, then one entry for each configured pair, later ones overwriting.
\<close>

definition Init_fractions :: "(int \<times> real \<times> real) list \<Rightarrow> (int \<rightharpoonup> real \<times> real)" where
  "Init_fractions param = fold (\<lambda>(pdg, fr) m. m(pdg \<mapsto> fr)) param [0 \<mapsto> (0.0, 1.0)]"

text \<open>
  \<open>Calorimeter::Init\<close>, the part that reads \<open>EtaPhiBins\<close> (lines 70-101). Every
  \<open>eta\<close> edge of a pair is a key of \<open>fBinMap\<close> as soon as the pair has a \<open>phi\<close> edge, and
  its set collects the \<open>phi\<close> edges of all the pairs that name it; \<open>fEtaBins\<close> is the keys
  in the order of the map, \<open>fPhiBins\<close> the sets in the order of a set: ascending, each
  value once.
\<close>

definition Init_bins :: "(real list \<times> real list) list \<Rightarrow> real list \<times> real list list" where
  "Init_bins param =
     (let etaBins = sort (remdups (concat (map (\<lambda>(etas, phis). if phis = [] then [] else etas) param)))
      in (etaBins,
          map (\<lambda>eta. sort (remdups (concat
                 (map (\<lambda>(etas, phis). if eta \<in> set etas then phis else []) param))))
              etaBins))"

subsection \<open>A small detector and small events\<close>

text \<open>
  A calorimeter with the \<open>eta\<close> edges \<open>-1, 0, 1\<close> and the \<open>phi\<close> edges \<open>-3, 0, 3\<close>, where
  electrons and photons leave all their energy in the ECAL and charged pions theirs in
  the HCAL, with no smearing (both resolution formulas are 0), before any event.
\<close>

definition small_calorimeter :: Calorimeter where
  "small_calorimeter =
     \<lparr>fEtaBins = [-1, 0, 1], fPhiBins = [[-3, 0, 3], [-3, 0, 3], [-3, 0, 3]],
      fFractionMap = Init_fractions [(11, (1, 0)), (22, (1, 0)), (211, (0, 1))],
      fECalResolutionFormula = (\<lambda>pt eta phi e. 0),
      fHCalResolutionFormula = (\<lambda>pt eta phi e. 0),
      fTimingEMin = 4, electronsFromTrack = False,
      fParticleInputArray = [], fTrackInputArray = [],
      fTowerHits = [], fTowerECalFractions = [], fTowerHCalFractions = [],
      fTrackECalFractions = [], fTrackHCalFractions = [], fParticlePDGId = [], fTrackPDGId = [],
      fTower = None, fTowerEta = 0, fTowerPhi = 0, fTowerEdges = [0, 0, 0, 0],
      fTowerECalEnergy = 0, fTowerHCalEnergy = 0, fTrackECalEnergy = 0, fTrackHCalEnergy = 0,
      fTowerTrackHits = 0, fTowerPhotonHits = 0, fTowerTrackArray = [],
      fTowerOutputArray = [], fPhotonOutputArray = [], fEFlowTrackOutputArray = [],
      fEFlowTowerOutputArray = [], gRandom = (\<lambda>n. 0), gRandomDraws = 0\<rparr>"

text \<open>A particle or track with the given code and energy that reaches the calorimeter at \<open>(eta, phi)\<close>.\<close>

definition particle_at :: "int \<Rightarrow> real \<Rightarrow> real \<Rightarrow> real \<Rightarrow> Candidate" where
  "particle_at pid eta phi e =
     NewCandidate\<lparr>PID := pid, Position := SetPtEtaPhiE 1 eta phi 0,
                  Momentum := SetPtEtaPhiE (e / cosh eta) eta phi e\<rparr>"

text \<open>One charged pion of 10 GeV at \<open>(0.5, 0.5)\<close>: a track and a particle of the same tower.\<close>

definition pion_event :: Calorimeter where
  "pion_event = small_calorimeter\<lparr>fParticleInputArray := [particle_at 211 (1/2) (1/2) 10],
                                   fTrackInputArray := [particle_at 211 (1/2) (1/2) 10]\<rparr>"

text \<open>One photon of energy 0 at \<open>(0.5, 0.5)\<close>.\<close>

definition soft_photon_event :: Calorimeter where
  "soft_photon_event = small_calorimeter\<lparr>fParticleInputArray := [particle_at 22 (1/2) (1/2) 0]\<rparr>"

text \<open>One photon of 10 GeV at \<open>eta = 1\<close>, the largest \<open>eta\<close> edge, and \<open>phi = 0.5\<close>.\<close>

definition edge_photon_event :: Calorimeter where
  "edge_photon_event = small_calorimeter\<lparr>fParticleInputArray := [particle_at 22 1 (1/2) 10]\<rparr>"

text \<open>The tower that \<open>FinalizeTower\<close> finds when the track of a pion is its only hit.\<close>

definition track_only_tower :: Calorimeter where
  "track_only_tower =
     small_calorimeter\<lparr>fTower := Some NewCandidate, fTowerTrackHits := 1,
                         fTowerTrackArray := [particle_at 211 (1/2) (1/2) 10],
                         fTrackHCalEnergy := 10\<rparr>"

text \<open>The tower that \<open>FinalizeTower\<close> finds when a photon of 10 GeV is its only hit.\<close>

definition photon_tower :: Calorimeter where
  "photon_tower =
     small_calorimeter\<lparr>fTower := Some NewCandidate, fTowerPhotonHits := 1,
                         fTowerECalEnergy := 10\<rparr>"

section \<open>Distances between directions\<close>

text \<open>
  \<open>TVector2::Phi_mpi_pi\<close> (ROOT) brings an angle into \<open>[-\<pi>, \<pi>)\<close> by adding or
  subtracting \<open>2\<pi>\<close> as often as needed; \<open>TLorentzVector::DeltaPhi\<close> and \<open>DeltaR\<close> are
  \<^verbatim>\<open>DeltaPhi(v) = Phi_mpi_pi(Phi() - v.Phi())
  DeltaR(v)   = sqrt(deta*deta + dphi*dphi),  deta = Eta() - v.Eta(), dphi = DeltaPhi(v)\<close>
\<close>

definition Phi_mpi_pi :: "real \<Rightarrow> real" where
  "Phi_mpi_pi x = x - 2 * pi * of_int \<lfloor>(x + pi) / (2 * pi)\<rfloor>"

definition DeltaPhi_of :: "TLorentzVector \<Rightarrow> TLorentzVector \<Rightarrow> real" where
  "DeltaPhi_of v w = Phi_mpi_pi (Phi v - Phi w)"

definition DeltaR :: "TLorentzVector \<Rightarrow> TLorentzVector \<Rightarrow> real" where
  "DeltaR v w =
     (let deta = Eta v - Eta w; dphi = DeltaPhi_of v w
      in sqrt (deta * deta + dphi * dphi))"

section \<open>FastJetFinder\<close>

text \<open>
  A \<open>fastjet::PseudoJet\<close>: its four-momentum, as the \<open>TLorentzVector\<close> that
  \<open>SetPxPyPzE(px(), py(), pz(), E())\<close> makes of it (\<open>perp()\<close> is its \<open>Pt\<close>), and its user
  index.
\<close>

record PseudoJet =
  pj_momentum :: TLorentzVector
  user_index :: int

text \<open>
  The FastJet library is an external collaborator; the module uses it through these calls:
  \<^item> \<open>inclusive_jets inputList\<close>: \<open>sorted_by_pt(sequence->inclusive_jets(fJetPTMin))\<close> of the
    cluster sequence built from \<open>inputList\<close>, each jet with \<open>sequence->constituents(jet)\<close>;
  \<^item> \<open>area_4vector\<close>; \<open>pj_m\<close>, the mass \<open>m()\<close> of a pseudojet;
  \<^item> \<open>trimmer jet\<close>: the trimmed jet (\<open>Filter\<close> with Cambridge/Aachen, \<open>R = 0.2\<close>,
    \<open>ptfrac = 0.05\<close>) and its \<open>pieces()\<close>;
  \<^item> \<open>nSub N jet\<close>: the \<open>N\<close>-subjettiness (one-pass \<open>kt\<close> axes, \<open>beta = 1\<close>, \<open>R0 = 0.8\<close>).
\<close>

record fastjet =
  inclusive_jets :: "PseudoJet list \<Rightarrow> (PseudoJet \<times> PseudoJet list) list"
  area_4vector :: "PseudoJet \<Rightarrow> TLorentzVector"
  pj_m :: "PseudoJet \<Rightarrow> real"
  trimmer :: "PseudoJet \<Rightarrow> PseudoJet \<times> PseudoJet list"
  nSub :: "nat \<Rightarrow> PseudoJet \<Rightarrow> real"

record FastJetFinder =
  fKeepPileUp :: int
  fAreaDefinition :: bool
  fInputArray :: "Candidate list"
  fOutputArray :: "Candidate list"

text \<open>
  Lines 216-234: the input list. \<open>number\<close> is the user index given to the next
  candidate that is kept.
\<close>

fun input_loop :: "int \<Rightarrow> int \<Rightarrow> Candidate list \<Rightarrow> PseudoJet list" where
  "input_loop keepPileUp number [] = []"
| "input_loop keepPileUp number (candidate # rest) =
     (if keepPileUp = 0 \<and> IsPU candidate > 0
      then input_loop keepPileUp number rest
      else \<lparr>pj_momentum = Momentum candidate, user_index = number\<rparr>
             # input_loop keepPileUp (number + 1) rest)"

text \<open>
  Lines 281-293: the loop over the constituents of one jet, with the running maxima
  \<open>detaMax\<close> and \<open>dphiMax\<close> and the candidate under construction.
\<close>

fun constituent_loop ::
  "Candidate list \<Rightarrow> TLorentzVector \<Rightarrow> PseudoJet list \<Rightarrow> real \<times> real \<times> Candidate
     \<Rightarrow> error + real \<times> real \<times> Candidate" where
  "constituent_loop inputArray momentum [] acc = Inr acc"
| "constituent_loop inputArray momentum (pj # rest) (detaMax, dphiMax, candidate) =
     (case At inputArray (user_index pj) of
        None \<Rightarrow> Inl NullPointer
      | Some constituent \<Rightarrow>
          (let deta = \<bar>Eta momentum - Eta (Momentum constituent)\<bar>;
               dphi = \<bar>DeltaPhi_of momentum (Momentum constituent)\<bar>
           in constituent_loop inputArray momentum rest
                (if deta > detaMax then deta else detaMax,
                 if dphi > dphiMax then dphi else dphiMax,
                 AddCandidate (nat (user_index pj)) candidate)))"

text \<open>Lines 327-334: the largest mass among the subjets, starting from 0.\<close>

fun largest_mass :: "fastjet \<Rightarrow> PseudoJet list \<Rightarrow> real \<Rightarrow> real" where
  "largest_mass lib [] largest_mass_subjet = largest_mass_subjet"
| "largest_mass lib (subjet # rest) largest_mass_subjet =
     largest_mass lib rest
       (if pj_m lib subjet > largest_mass_subjet then pj_m lib subjet else largest_mass_subjet)"

text \<open>Lines 311-373: the body of \<open>if (itOutputList->perp() > 200)\<close>.\<close>

definition substructure :: "fastjet \<Rightarrow> PseudoJet \<Rightarrow> Candidate \<Rightarrow> Candidate" where
  "substructure lib jet candidate =
     (let (trimmed_jet, kept_subjets) = trimmer lib jet;
          trimmedMass = (if pj_m lib trimmed_jet < 0 then 0 else pj_m lib trimmed_jet);
          largest_mass_subjet = largest_mass lib kept_subjets 0;
          massdrop = (if trimmedMass \<noteq> 0 then largest_mass_subjet / trimmedMass else 1);
          c1 = candidate\<lparr>TrimmedMass := trimmedMass, NSubJets := length kept_subjets,
                         MassDrop := massdrop,
                         Tau1 := nSub lib 1 jet, Tau2 := nSub lib 2 jet, Tau3 := nSub lib 3 jet\<rparr>;
          c2 = (if massdrop < 0.4 \<and> 60 < trimmedMass \<and> trimmedMass < 120
                then c1\<lparr>WTag := 1\<rparr> else c1);
          c3 = (if length kept_subjets \<ge> 3 \<and> 140 < trimmedMass \<and> trimmedMass < 230
                then c2\<lparr>TopTag := 1\<rparr> else c2)
      in if massdrop < 0.4 \<and> 100 < trimmedMass \<and> trimmedMass < 140
         then c3\<lparr>HTag := 1\<rparr> else c3)"

text \<open>
  Lines 273-376: one turn of the loop over the jets. \<open>detaMax\<close> and \<open>dphiMax\<close> are set
  to 0 before the loop (lines 268-269) and come into each turn as the previous turn
  left them.
\<close>

definition export_jet ::
  "fastjet \<Rightarrow> FastJetFinder \<Rightarrow> real \<times> real \<Rightarrow> PseudoJet \<times> PseudoJet list
     \<Rightarrow> error + (real \<times> real) \<times> Candidate" where
  "export_jet lib f maxima jc =
     (let (jet, inputList) = jc;
          (detaMax, dphiMax) = maxima;
          momentum = pj_momentum jet;
          area = (if fAreaDefinition f then area_4vector lib jet else zero_vector)
      in case constituent_loop (fInputArray f) momentum inputList (detaMax, dphiMax, NewCandidate) of
           Inl e \<Rightarrow> Inl e
         | Inr (detaMax1, dphiMax1, candidate) \<Rightarrow>
             (let c1 = candidate\<lparr>Momentum := momentum, Area := area,
                                 DeltaEta := detaMax1, DeltaPhi := dphiMax1\<rparr>
              in Inr ((detaMax1, dphiMax1),
                      if Pt (pj_momentum jet) > 200 then substructure lib jet c1 else c1)))"

fun jet_loop ::
  "fastjet \<Rightarrow> FastJetFinder \<Rightarrow> real \<times> real \<Rightarrow> (PseudoJet \<times> PseudoJet list) list
     \<Rightarrow> error + FastJetFinder" where
  "jet_loop lib f maxima [] = Inr f"
| "jet_loop lib f maxima (jc # rest) =
     (case export_jet lib f maxima jc of
        Inl e \<Rightarrow> Inl e
      | Inr (maxima1, candidate) \<Rightarrow>
          jet_loop lib (f\<lparr>fOutputArray := fOutputArray f @ [candidate]\<rparr>) maxima1 rest)"

text \<open>\<open>FastJetFinder::Process\<close>, without the \<open>rho\<close> candidates of lines 247-262.\<close>

definition FastJetFinder_Process :: "fastjet \<Rightarrow> FastJetFinder \<Rightarrow> error + FastJetFinder" where
  "FastJetFinder_Process lib f =
     jet_loop lib f (0.0, 0.0) (inclusive_jets lib (input_loop (fKeepPileUp f) 0 (fInputArray f)))"

text \<open>
  What the spec asks of \<open>DeltaEta\<close> and \<open>DeltaPhi\<close>: the maximum, over the jet's own
  constituents, of the absolute distance from the jet axis.
\<close>

definition own_DeltaEta :: "Candidate list \<Rightarrow> PseudoJet \<times> PseudoJet list \<Rightarrow> real" where
  "own_DeltaEta inputArray jc =
     Max ((\<lambda>pj. \<bar>Eta (pj_momentum (fst jc)) - Eta (Momentum (inputArray ! nat (user_index pj)))\<bar>)
            ` set (snd jc))"

definition own_DeltaPhi :: "Candidate list \<Rightarrow> PseudoJet \<times> PseudoJet list \<Rightarrow> real" where
  "own_DeltaPhi inputArray jc =
     Max ((\<lambda>pj. \<bar>DeltaPhi_of (pj_momentum (fst jc)) (Momentum (inputArray ! nat (user_index pj)))\<bar>)
            ` set (snd jc))"

subsection \<open>A small event for the jet finder\<close>

text \<open>
  Three towers at \<open>eta = 0, 0.4, 2\<close> (all at \<open>phi = 0\<close>) and a clustering that gives two
  jets: a jet at \<open>eta = 0.1\<close> made of the first two towers, and a jet at \<open>eta = 2\<close> made
  of the third tower alone.
\<close>

definition tower_at :: "real \<Rightarrow> real \<Rightarrow> Candidate" where
  "tower_at pt eta = NewCandidate\<lparr>Momentum := SetPtEtaPhiE pt eta 0 (pt * cosh eta)\<rparr>"

definition two_jet_event :: FastJetFinder where
  "two_jet_event = \<lparr>fKeepPileUp = 1, fAreaDefinition = False,
     fInputArray = [tower_at 60 0, tower_at 10 (2/5), tower_at 50 2], fOutputArray = []\<rparr>"

definition two_jet_clustering :: fastjet where
  "two_jet_clustering =
     \<lparr>inclusive_jets = (\<lambda>inputList.
         [(\<lparr>pj_momentum = SetPtEtaPhiE 70 (1/10) 0 71, user_index = -1\<rparr>, take 2 inputList),
          (\<lparr>pj_momentum = SetPtEtaPhiE 50 2 0 (50 * cosh 2), user_index = -1\<rparr>, drop 2 inputList)]),
      area_4vector = (\<lambda>jet. zero_vector),
      pj_m = (\<lambda>jet. 0),
      trimmer = (\<lambda>jet. (jet, [])),
      nSub = (\<lambda>N jet. 0)\<rparr>"

text \<open>
  One jet of \<open>pT = 300\<close> made of two towers, and a library whose trimmer gives it a
  trimmed jet of mass 80 with two subjets of masses 20 and 5 (the three are told apart
  by their user indices 10, 11 and 12).
\<close>

definition boosted_event :: FastJetFinder where
  "boosted_event = \<lparr>fKeepPileUp = 1, fAreaDefinition = False,
     fInputArray = [tower_at 200 0, tower_at 100 (1/5)], fOutputArray = []\<rparr>"

definition boosted_jet :: PseudoJet where
  "boosted_jet = \<lparr>pj_momentum = SetPtEtaPhiE 300 (1/10) 0 320, user_index = -1\<rparr>"

definition boosted_clustering :: fastjet where
  "boosted_clustering =
     \<lparr>inclusive_jets = (\<lambda>inputList. [(boosted_jet, inputList)]),
      area_4vector = (\<lambda>jet. zero_vector),
      pj_m = (\<lambda>jet. if user_index jet = 10 then 80 else if user_index jet = 11 then 20
                      else if user_index jet = 12 then 5 else 0),
      trimmer = (\<lambda>jet. (\<lparr>pj_momentum = SetPtEtaPhiE 290 (1/10) 0 310, user_index = 10\<rparr>,
                         [\<lparr>pj_momentum = SetPtEtaPhiE 195 0 0 196, user_index = 11\<rparr>,
                          \<lparr>pj_momentum = SetPtEtaPhiE 95 (1/5) 0 97, user_index = 12\<rparr>])),
      nSub = (\<lambda>N jet. 1 / real (N + 1))\<rparr>"

section \<open>BTagging\<close>

text \<open>
  The members of \<open>class BTagging\<close>. \<open>fPTMin\<close> and \<open>fEtaMax\<close> are those of both
  classifiers (\<open>Init\<close> gives them the same values). The array of all particles has the
  name \<open>fParticleInputArray\<close> in the source.
\<close>

record BTagging =
  fBitNumber :: nat
  fDeltaR :: real
  fPTMin :: real
  fEtaMax :: real
  fEfficiencyMap :: "int \<rightharpoonup> DelphesFormula"
  fPartonInputArray :: "Candidate list"
  fLHEPartonInputArray :: "Candidate list"
  fJetInputArray :: "Candidate list"
  fParticleInputArray_BTagging :: "Candidate list"

text \<open>\<open>BTaggingPartonClassifier::GetCategory\<close> and \<open>BTaggingLHEPartonClassifier::GetCategory\<close>.\<close>

definition BTaggingPartonClassifier_GetCategory :: "BTagging \<Rightarrow> Candidate \<Rightarrow> int" where
  "BTaggingPartonClassifier_GetCategory b parton =
     (if Pt (Momentum parton) \<le> fPTMin b \<or> \<bar>Eta (Momentum parton)\<bar> > fEtaMax b then -1
      else if Status parton = -1 then -1
      else if \<bar>PID parton\<bar> \<noteq> 21 \<and> \<bar>PID parton\<bar> > 5 then -1
      else if Status parton = 3 \<or> Status parton = 2 then 0
      else 0)"

definition BTaggingLHEPartonClassifier_GetCategory :: "BTagging \<Rightarrow> Candidate \<Rightarrow> int" where
  "BTaggingLHEPartonClassifier_GetCategory b parton =
     (if Pt (Momentum parton) \<le> fPTMin b \<or> \<bar>Eta (Momentum parton)\<bar> > fEtaMax b then -1
      else if Status parton = -1 then -1
      else if \<bar>PID parton\<bar> \<noteq> 21 \<and> \<bar>PID parton\<bar> > 5 then -1
      else if Status parton \<noteq> 1 then -1
      else 0)"

text \<open>
  Modelled from the spec: \<open>ExRootFilter\<close> is not among the source files.
  \<open>GetSubArray(classifier, 0)\<close> is the array of the objects that the classifier puts in
  category 0, in their order (the spec: "Classification selects partons with
  \<open>pT > pT_min\<close> and \<open>|\<eta>| < \<eta>_max\<close> that are quarks or gluon and whose status qualifies");
  the 0 that \<open>Process\<close> checks for is taken to come back when there is no such object.
\<close>

definition GetSubArray :: "(Candidate \<Rightarrow> int) \<Rightarrow> Candidate list \<Rightarrow> Candidate list option" where
  "GetSubArray GetCategory arr =
     (if filter (\<lambda>c. GetCategory c = 0) arr = [] then None
      else Some (filter (\<lambda>c. GetCategory c = 0) arr))"

subsection \<open>\<open>GetAlgoFlavour\<close>\<close>

text \<open>
  The locals of \<open>GetAlgoFlavour\<close>. \<open>pdgCode\<close> and \<open>pdgCodeMax\<close> are not initialised by
  the source: their first values are whatever the caller of the model says.
\<close>

record AlgoFlavour =
  tempParticle :: Candidate
  tempPartonHighestPt :: Candidate
  tempNearest :: Candidate
  maxPt :: real
  minDr :: real
  pdgCode :: int
  pdgCodeMax :: int

text \<open>
  Lines 311-322: the number of daughters that are partons. A daughter index outside the
  array of all particles makes \<open>At\<close> return 0, which is then dereferenced. The second
  count tests \<open>daughterFlavour1 == 5\<close>, as the source does.
\<close>

definition nparton_daughters :: "Candidate list \<Rightarrow> Candidate \<Rightarrow> error + nat" where
  "nparton_daughters particles parton =
     (if D1 parton \<noteq> -1 \<or> D2 parton \<noteq> -1
      then (case (if D1 parton \<noteq> -1 then map_option (\<lambda>d. \<bar>PID d\<bar>) (At particles (D1 parton))
                   else Some (-1)) of
              None \<Rightarrow> Inl NullPointer
            | Some daughterFlavour1 \<Rightarrow>
                (case (if D2 parton \<noteq> -1 then map_option (\<lambda>d. \<bar>PID d\<bar>) (At particles (D2 parton))
                       else Some (-1)) of
                   None \<Rightarrow> Inl NullPointer
                 | Some daughterFlavour2 \<Rightarrow>
                     Inr ((if daughterFlavour1 = 1 \<or> daughterFlavour1 = 2 \<or> daughterFlavour1 = 3
                              \<or> daughterFlavour1 = 4 \<or> daughterFlavour1 = 5 \<or> daughterFlavour1 = 21
                           then 1 else 0)
                        + (if daughterFlavour2 = 1 \<or> daughterFlavour2 = 2 \<or> daughterFlavour2 = 3
                              \<or> daughterFlavour2 = 4 \<or> daughterFlavour1 = 5 \<or> daughterFlavour2 = 21
                           then 1 else 0))))
      else Inr 0)"

text \<open>Lines 324-336: what a parton inside the cone leaves in the locals.\<close>

definition algo_record :: "BTagging \<Rightarrow> Candidate \<Rightarrow> Candidate \<Rightarrow> AlgoFlavour \<Rightarrow> AlgoFlavour" where
  "algo_record b jet parton l =
     (if DeltaR (Momentum jet) (Momentum parton) \<le> fDeltaR b
      then (let l1 = (if DeltaR (Momentum jet) (Momentum parton) < minDr l
                      then l\<lparr>minDr := DeltaR (Momentum jet) (Momentum parton),
                             tempNearest := parton\<rparr>
                      else l);
                l2 = (if \<bar>PID parton\<bar> = 4 then l1\<lparr>tempParticle := parton\<rparr> else l1);
                l3 = (if \<bar>PID parton\<bar> = 5 then l2\<lparr>tempParticle := parton\<rparr> else l2)
            in if Pt (Momentum parton) > maxPt l3
               then l3\<lparr>maxPt := Pt (Momentum parton), tempPartonHighestPt := parton\<rparr>
               else l3)
      else l)"

text \<open>
  Lines 302-337: the loop over the LHE partons, for one parton. The daughter check and
  the recording are inside this loop, as in the source: they run once for every LHE
  parton that comes before the first one that matches the parton. (\<open>isGoodParton\<close> is
  false only on the way to \<open>break\<close>, so line 308 never continues.)
\<close>

fun algo_LHE_loop ::
  "BTagging \<Rightarrow> Candidate \<Rightarrow> Candidate \<Rightarrow> Candidate list \<Rightarrow> AlgoFlavour \<Rightarrow> error + AlgoFlavour" where
  "algo_LHE_loop b jet parton [] l = Inr l"
| "algo_LHE_loop b jet parton (LHEParton # rest) l =
     (if DeltaR (Momentum parton) (Momentum LHEParton) < 0.001
         \<and> PID parton = PID LHEParton \<and> Charge LHEParton = Charge parton
      then Inr l
      else (case nparton_daughters (fParticleInputArray_BTagging b) parton of
              Inl e \<Rightarrow> Inl e
            | Inr n \<Rightarrow>
                if n > 0 then algo_LHE_loop b jet parton rest l
                else algo_LHE_loop b jet parton rest (algo_record b jet parton l)))"

text \<open>Lines 292-338: the loop over the partons.\<close>

fun algo_parton_loop ::
  "BTagging \<Rightarrow> Candidate \<Rightarrow> Candidate list \<Rightarrow> Candidate list \<Rightarrow> AlgoFlavour \<Rightarrow> error + AlgoFlavour" where
  "algo_parton_loop b jet LHEpartonArray [] l = Inr l"
| "algo_parton_loop b jet LHEpartonArray (parton # rest) l =
     (let l1 = (if \<bar>PID parton\<bar> = 21 then l\<lparr>pdgCode := 0\<rparr> else l);
          l2 = (if DeltaR (Momentum jet) (Momentum parton) \<le> fDeltaR b \<and> pdgCodeMax l1 < pdgCode l1
                then l1\<lparr>pdgCodeMax := pdgCode l1\<rparr> else l1)
      in case algo_LHE_loop b jet parton LHEpartonArray l2 of
           Inl e \<Rightarrow> Inl e
         | Inr l3 \<Rightarrow> algo_parton_loop b jet LHEpartonArray rest l3)"

text \<open>
  \<open>BTagging::GetAlgoFlavour\<close>. The temporaries start as default candidates; \<open>uninit\<close> are
  the first values of \<open>pdgCode\<close> and \<open>pdgCodeMax\<close>.
\<close>

definition GetAlgoFlavour ::
  "BTagging \<Rightarrow> Candidate list \<Rightarrow> Candidate list \<Rightarrow> int \<times> int \<Rightarrow> Candidate \<Rightarrow> error + Candidate" where
  "GetAlgoFlavour b partonArray LHEpartonArray uninit jet =
     (case algo_parton_loop b jet LHEpartonArray partonArray
             \<lparr>tempParticle = NewCandidate, tempPartonHighestPt = NewCandidate,
              tempNearest = NewCandidate, maxPt = 0, minDr = 1000,
              pdgCode = fst uninit, pdgCodeMax = snd uninit\<rparr> of
        Inl e \<Rightarrow> Inl e
      | Inr l \<Rightarrow>
          (let tempParticle1 = (if Pt (Momentum (tempParticle l)) \<le> 0
                                then tempPartonHighestPt l else tempParticle l);
               pdgCodeMax1 = (if pdgCodeMax l = 0 then 21 else pdgCodeMax l);
               pdgCodeMax2 = (if pdgCodeMax1 = -1 then 0 else pdgCodeMax1)
           in Inr (jet\<lparr>flavourHeaviest := \<bar>PID (tempParticle l)\<bar>,
                       flavourHighestPt := \<bar>PID (tempPartonHighestPt l)\<bar>,
                       flavourNearest2 := \<bar>PID (tempNearest l)\<bar>,
                       flavourAlgo := \<bar>PID tempParticle1\<bar>,
                       flavourDefault := pdgCodeMax2\<rparr>)))"

subsection \<open>\<open>GetPhysicsFlavour\<close>\<close>

text \<open>
  Lines 366-379: the loop over the LHE partons, with the locals
  \<open>(tempNearest, minDr, tempParticle, nInTheCone)\<close>.
\<close>

fun physics_LHE_loop ::
  "BTagging \<Rightarrow> Candidate \<Rightarrow> Candidate list \<Rightarrow> Candidate \<times> real \<times> Candidate \<times> int
     \<Rightarrow> Candidate \<times> real \<times> Candidate \<times> int" where
  "physics_LHE_loop b jet [] acc = acc"
| "physics_LHE_loop b jet (LHEParton # rest) (nearest, dr, particle, nInTheCone) =
     (let dist = DeltaR (Momentum jet) (Momentum LHEParton)
      in physics_LHE_loop b jet rest
           (if Status LHEParton = 1 \<and> dist < dr then LHEParton else nearest,
            if Status LHEParton = 1 \<and> dist < dr then dist else dr,
            if Status LHEParton = 1 \<and> dist \<le> fDeltaR b then LHEParton else particle,
            if Status LHEParton = 1 \<and> dist \<le> fDeltaR b then nInTheCone + 1 else nInTheCone))"

text \<open>
  Lines 386-391: the inner loop. The iterator over the LHE partons is reset once, before
  the loop over the partons (line 382), so each parton goes on from where the parton
  before it stopped: the result is \<open>isGoodCandidate\<close> and what is left to iterate.
\<close>

fun LHE_match_scan :: "Candidate \<Rightarrow> Candidate list \<Rightarrow> bool \<times> Candidate list" where
  "LHE_match_scan parton [] = (True, [])"
| "LHE_match_scan parton (LHEParton # rest) =
     (if DeltaR (Momentum parton) (Momentum LHEParton) < 0.01
         \<and> PID parton = PID LHEParton \<and> Charge LHEParton = Charge parton
      then (False, rest)
      else LHE_match_scan parton rest)"

text \<open>Lines 383-397: the loop over the partons, which collects the contaminations.\<close>

fun contamination_loop ::
  "Candidate \<Rightarrow> Candidate list \<Rightarrow> Candidate list \<Rightarrow> Candidate list \<Rightarrow> Candidate list" where
  "contamination_loop jet [] itLHE contaminations = contaminations"
| "contamination_loop jet (parton # rest) itLHE contaminations =
     (let dist = DeltaR (Momentum jet) (Momentum parton);
          (isGoodCandidate, itLHE1) = LHE_match_scan parton itLHE
      in if \<not> isGoodCandidate then contamination_loop jet rest itLHE1 contaminations
         else if D1 parton \<noteq> -1 \<or> D2 parton \<noteq> -1
         then (if \<bar>PID parton\<bar> < 4 \<or> \<bar>PID parton\<bar> = 21
               then contamination_loop jet rest itLHE1 contaminations
               else if dist < 0.7
               then contamination_loop jet rest itLHE1 (contaminations @ [parton])
               else contamination_loop jet rest itLHE1 contaminations)
         else contamination_loop jet rest itLHE1 contaminations)"

text \<open>
  Line 410: the test "mother is the initial parton". With a mother, \<open>At(M1)\<close> is
  dereferenced.
\<close>

definition mother_is_initial :: "Candidate list \<Rightarrow> Candidate \<Rightarrow> Candidate \<Rightarrow> error + bool" where
  "mother_is_initial particles initial contamination =
     (if M1 contamination \<noteq> -1 \<or> M2 contamination \<noteq> -1
      then (case At particles (M1 contamination) of
              None \<Rightarrow> Inl NullPointer
            | Some mother \<Rightarrow> Inr (DeltaR (Momentum mother) (Momentum initial) < 0.001))
      else Inr False)"

text \<open>Lines 405-416: the loop over the contaminations; \<open>flavour\<close> is \<open>jet->flavourPhysics\<close>.\<close>

fun contamination_check :: "Candidate list \<Rightarrow> Candidate \<Rightarrow> Candidate list \<Rightarrow> int \<Rightarrow> error + int" where
  "contamination_check particles initial [] flavour = Inr flavour"
| "contamination_check particles initial (contamination # rest) flavour =
     (case mother_is_initial particles initial contamination of
        Inl e \<Rightarrow> Inl e
      | Inr True \<Rightarrow> contamination_check particles initial rest flavour
      | Inr False \<Rightarrow>
          if \<bar>PID initial\<bar> = 4
          then (if \<bar>PID contamination\<bar> = 4
                then contamination_check particles initial rest flavour
                else Inr 0)
          else contamination_check particles initial rest flavour)"

text \<open>\<open>BTagging::GetPhysicsFlavour\<close>.\<close>

definition GetPhysicsFlavour ::
  "BTagging \<Rightarrow> Candidate list \<Rightarrow> Candidate list \<Rightarrow> Candidate \<Rightarrow> error + Candidate" where
  "GetPhysicsFlavour b partonArray LHEpartonArray jet =
     (let (nearest, dr, particle, nInTheCone) =
            physics_LHE_loop b jet LHEpartonArray (NewCandidate, 1000, NewCandidate, 0);
          contaminations = contamination_loop jet partonArray LHEpartonArray [];
          jet1 = jet\<lparr>flavourNearest3 := \<bar>PID nearest\<bar>\<rparr>
      in if nInTheCone \<noteq> 1 then Inr (jet1\<lparr>flavourPhysics := 0\<rparr>)
         else if contaminations = [] then Inr (jet1\<lparr>flavourPhysics := \<bar>PID particle\<bar>\<rparr>)
         else (case contamination_check (fParticleInputArray_BTagging b) particle contaminations
                      \<bar>PID particle\<bar> of
                 Inl e \<Rightarrow> Inl e
               | Inr flavour \<Rightarrow> Inr (jet1\<lparr>flavourPhysics := flavour\<rparr>)))"

text \<open>The LHE partons that the first loop counts: those of status 1 within \<open>fDeltaR\<close> of the jet.\<close>

definition in_cone :: "BTagging \<Rightarrow> Candidate \<Rightarrow> Candidate \<Rightarrow> bool" where
  "in_cone b jet LHEParton \<longleftrightarrow>
     Status LHEParton = 1 \<and> DeltaR (Momentum jet) (Momentum LHEParton) \<le> fDeltaR b"

subsection \<open>Tagging\<close>

text \<open>
  \<open>BTagging::Init\<close>, lines 125-141: the efficiency formulas, and the formula \<open>0.0\<close> for
  the key 0 when the configuration has none.
\<close>

definition Init_efficiency :: "(int \<times> DelphesFormula) list \<Rightarrow> (int \<rightharpoonup> DelphesFormula)" where
  "Init_efficiency param =
     (let m = fold (\<lambda>(flavour, formula) m. m(flavour \<mapsto> formula)) param Map.empty
      in if m 0 = None then m(0 \<mapsto> (\<lambda>pt eta phi energy. 0.0)) else m)"

text \<open>\<open>fEfficiencyMap.find(flavour)\<close>, and \<open>find(0)\<close> when that is \<open>end()\<close>.\<close>

definition find_formula :: "(int \<rightharpoonup> DelphesFormula) \<Rightarrow> int \<Rightarrow> error + DelphesFormula" where
  "find_formula m flavour =
     (case m flavour of
        Some formula \<Rightarrow> Inr formula
      | None \<Rightarrow> (case m 0 of Some formula \<Rightarrow> Inr formula | None \<Rightarrow> Inl EndIterator))"

text \<open>
  One of the seven blocks of lines 213-273:
  \<^verbatim>\<open>jet->BTag... |= (randomNumber <= formula->Eval(pt, eta)) << fBitNumber;\<close>
  \<open>Eval(pt, eta)\<close> is \<open>Eval(pt, eta, 0, 0)\<close>. The shift is that of a 32-bit integer, for a
  bit number below 32.
\<close>

definition tag :: "BTagging \<Rightarrow> real \<Rightarrow> Candidate \<Rightarrow> int \<Rightarrow> 32 word \<Rightarrow> error + 32 word" where
  "tag b randomNumber jet flavour btag =
     (case find_formula (fEfficiencyMap b) flavour of
        Inl e \<Rightarrow> Inl e
      | Inr formula \<Rightarrow>
          Inr (btag OR push_bit (fBitNumber b)
                 (of_bool (randomNumber \<le> formula (Pt (Momentum jet)) (Eta (Momentum jet)) 0 0))))"

definition then_tag :: "error + 'a \<Rightarrow> ('a \<Rightarrow> error + 'b) \<Rightarrow> error + 'b" where
  "then_tag x f = (case x of Inl e \<Rightarrow> Inl e | Inr v \<Rightarrow> f v)"

text \<open>Lines 210-273: the seven tags of one jet, all with the one \<open>randomNumber\<close>.\<close>

definition tag_jet :: "BTagging \<Rightarrow> real \<Rightarrow> Candidate \<Rightarrow> error + Candidate" where
  "tag_jet b randomNumber jet =
     then_tag (tag b randomNumber jet (flavourHeaviest jet) (BTagHeaviest jet)) (\<lambda>heaviest.
     then_tag (tag b randomNumber jet (flavourHighestPt jet) (BTagHighestPt jet)) (\<lambda>highestPt.
     then_tag (tag b randomNumber jet (flavourNearest2 jet) (BTagNearest2 jet)) (\<lambda>nearest2.
     then_tag (tag b randomNumber jet (flavourNearest3 jet) (BTagNearest3 jet)) (\<lambda>nearest3.
     then_tag (tag b randomNumber jet (flavourAlgo jet) (BTagAlgo jet)) (\<lambda>algo.
     then_tag (tag b randomNumber jet (flavourPhysics jet) (BTagPhysics jet)) (\<lambda>physics.
     then_tag (tag b randomNumber jet (flavourDefault jet) (BTagDefault jet)) (\<lambda>default.
       Inr (jet\<lparr>BTagHeaviest := heaviest, BTagHighestPt := highestPt,
                 BTagNearest2 := nearest2, BTagNearest3 := nearest3,
                 BTagAlgo := algo, BTagPhysics := physics, BTagDefault := default\<rparr>))))))))"

text \<open>
  Lines 204-275: the loop over the jets. \<open>gRandom->Uniform()\<close> is called once in each
  turn: the \<open>n\<close>-th call gives \<open>uniform n\<close>. \<open>uninit n\<close> are the values that the
  uninitialised locals of \<open>GetAlgoFlavour\<close> have in its \<open>n\<close>-th call.
\<close>

fun BTagging_jet_loop ::
  "BTagging \<Rightarrow> Candidate list \<Rightarrow> Candidate list \<Rightarrow> (nat \<Rightarrow> int \<times> int) \<Rightarrow> (nat \<Rightarrow> real)
     \<Rightarrow> nat \<Rightarrow> Candidate list \<Rightarrow> error + Candidate list \<times> nat" where
  "BTagging_jet_loop b partonArray LHEpartonArray uninit uniform n [] = Inr ([], n)"
| "BTagging_jet_loop b partonArray LHEpartonArray uninit uniform n (jet # rest) =
     then_tag (GetAlgoFlavour b partonArray LHEpartonArray (uninit n) jet) (\<lambda>jet1.
     then_tag (GetPhysicsFlavour b partonArray LHEpartonArray jet1) (\<lambda>jet2.
     then_tag (tag_jet b (uniform n) jet2) (\<lambda>jet3.
     then_tag (BTagging_jet_loop b partonArray LHEpartonArray uninit uniform (Suc n) rest)
       (\<lambda>(jets, n'). Inr (jet3 # jets, n')))))"

text \<open>\<open>BTagging::Process\<close>: the jets as it leaves them, and the number of random draws made.\<close>

definition BTagging_Process ::
  "BTagging \<Rightarrow> (nat \<Rightarrow> int \<times> int) \<Rightarrow> (nat \<Rightarrow> real) \<Rightarrow> error + Candidate list \<times> nat" where
  "BTagging_Process b uninit uniform =
     (case GetSubArray (BTaggingPartonClassifier_GetCategory b) (fPartonInputArray b) of
        None \<Rightarrow> Inr (fJetInputArray b, 0)
      | Some partonArray \<Rightarrow>
          (case GetSubArray (BTaggingLHEPartonClassifier_GetCategory b) (fLHEPartonInputArray b) of
             None \<Rightarrow> Inr (fJetInputArray b, 0)
           | Some LHEpartonArray \<Rightarrow>
               BTagging_jet_loop b partonArray LHEpartonArray uninit uniform 0 (fJetInputArray b)))"

text \<open>
  The seven flavour variants, each with its tag field, and the efficiency that the
  formula keyed by a flavour (by 0 when the flavour has no formula) gives for a jet.
\<close>

definition flavour_variants :: "((Candidate \<Rightarrow> int) \<times> (Candidate \<Rightarrow> 32 word)) list" where
  "flavour_variants =
     [(flavourHeaviest, BTagHeaviest), (flavourHighestPt, BTagHighestPt),
      (flavourNearest2, BTagNearest2), (flavourNearest3, BTagNearest3),
      (flavourAlgo, BTagAlgo), (flavourPhysics, BTagPhysics), (flavourDefault, BTagDefault)]"

definition efficiency_at :: "BTagging \<Rightarrow> Candidate \<Rightarrow> int \<Rightarrow> real" where
  "efficiency_at b jet flavour =
     (case find_formula (fEfficiencyMap b) flavour of
        Inr formula \<Rightarrow> formula (Pt (Momentum jet)) (Eta (Momentum jet)) 0 0
      | Inl e \<Rightarrow> 0)"

subsection \<open>Small events for the b-tagger\<close>

text \<open>
  A parton with the given code, status, \<open>pT\<close> and \<open>eta\<close> at \<open>phi = 0\<close>, without mothers or
  daughters, and a jet of \<open>pT = 100\<close> at \<open>eta = 0\<close>, \<open>phi = 0\<close>.
\<close>

definition parton :: "int \<Rightarrow> int \<Rightarrow> real \<Rightarrow> real \<Rightarrow> Candidate" where
  "parton pid status pt eta =
     NewCandidate\<lparr>PID := pid, Status := status, M1 := -1, M2 := -1, D1 := -1, D2 := -1,
                  Momentum := SetPtEtaPhiE pt eta 0 (pt * cosh eta)\<rparr>"

definition central_jet :: Candidate where
  "central_jet = NewCandidate\<lparr>Momentum := SetPtEtaPhiE 100 0 0 100\<rparr>"

text \<open>
  A tagger with cone \<open>0.5\<close>, bit number 0 and the efficiencies \<open>0.7\<close> for b, \<open>0.2\<close> for c
  and \<open>0.01\<close> otherwise.
\<close>

definition small_tagger :: BTagging where
  "small_tagger =
     \<lparr>fBitNumber = 0, fDeltaR = 1/2, fPTMin = 1, fEtaMax = 5/2,
      fEfficiencyMap = Init_efficiency [(0, \<lambda>pt eta phi energy. 1/100),
                                        (4, \<lambda>pt eta phi energy. 1/5),
                                        (5, \<lambda>pt eta phi energy. 7/10)],
      fPartonInputArray = [], fLHEPartonInputArray = [], fJetInputArray = [central_jet],
      fParticleInputArray_BTagging = []\<rparr>"

text \<open>
  A b quark from the matrix element at \<open>eta = 0\<close>; after the shower a b quark at
  \<open>eta = 0.1\<close> and a c quark at \<open>eta = 0.2\<close>, both without daughters and both inside the
  cone of the jet, the b quark first.
\<close>

definition b_then_c_event :: BTagging where
  "b_then_c_event =
     small_tagger\<lparr>fLHEPartonInputArray := [parton 5 1 80 0],
                   fPartonInputArray := [parton 5 2 50 (1/10), parton 4 2 30 (1/5)],
                   fParticleInputArray_BTagging :=
                     [parton 5 1 80 0, parton 5 2 50 (1/10), parton 4 2 30 (1/5)]\<rparr>"

text \<open>
  A b quark from the matrix element at \<open>eta = 0\<close>, alone in the cone of the jet; after
  the shower a c quark at \<open>eta = 0.1\<close> that decays (its daughter is particle 2, a D meson)
  and whose mother is particle 1, a gluon at \<open>eta = 1.5\<close>.
\<close>

definition b_with_c_contamination :: BTagging where
  "b_with_c_contamination =
     small_tagger\<lparr>fLHEPartonInputArray := [parton 5 1 80 0],
                   fPartonInputArray := [(parton 4 2 20 (1/10))\<lparr>M1 := 1, D1 := 2\<rparr>],
                   fParticleInputArray_BTagging :=
                     [parton 5 1 80 0, parton 21 2 30 (3/2), parton 411 1 15 (1/10)]\<rparr>"

text \<open>The same with the flavours exchanged: a c quark from the matrix element, a b quark after the shower.\<close>

definition c_with_b_contamination :: BTagging where
  "c_with_b_contamination =
     small_tagger\<lparr>fLHEPartonInputArray := [parton 4 1 80 0],
                   fPartonInputArray := [(parton 5 2 20 (1/10))\<lparr>M1 := 1, D1 := 2\<rparr>],
                   fParticleInputArray_BTagging :=
                     [parton 4 1 80 0, parton 21 2 30 (3/2), parton 511 1 15 (1/10)]\<rparr>"

text \<open>A jet whose \<open>BTagAlgo\<close> has bit 0 set already, by a tagger that ran before with the same bit number.\<close>

definition tagged_jet :: Candidate where
  "tagged_jet = central_jet\<lparr>BTagAlgo := 1\<rparr>"

section \<open>Calorimeter: bin lookup\<close>

lemma lower_bound_loop_spec:
  assumes "sorted xs" and "first + len \<le> length xs"
    and "\<forall>i < first. xs ! i < val"
    and "\<forall>i. first + len \<le> i \<and> i < length xs \<longrightarrow> \<not> xs ! i < val"
  shows "first \<le> lower_bound_loop xs val first len
     \<and> lower_bound_loop xs val first len \<le> first + len
     \<and> (\<forall>i < lower_bound_loop xs val first len. xs ! i < val)
     \<and> (\<forall>i. lower_bound_loop xs val first len \<le> i \<and> i < length xs \<longrightarrow> \<not> xs ! i < val)"
  using assms
proof (induction xs val first len rule: lower_bound_loop.induct)
  case (1 xs val first len)
  show ?case
  proof (cases "len = 0")
    case True
    with "1.prems" show ?thesis
      by (subst (1 2 3 4) lower_bound_loop.simps) simp
  next
    case False
    define middle where "middle = first + len div 2"
    have mid_lt: "middle < length xs"
      using False "1.prems"(2) by (simp add: middle_def)
    show ?thesis
    proof (cases "xs ! middle < val")
      case True
      define r where "r = lower_bound_loop xs val (middle + 1) (len - len div 2 - 1)"
      have below: "\<forall>i < first + len div 2 + 1. xs ! i < val"
      proof (intro allI impI)
        fix i assume "i < first + len div 2 + 1"
        then have "i \<le> middle" by (simp add: middle_def)
        then have "xs ! i \<le> xs ! middle"
          using \<open>sorted xs\<close> mid_lt by (simp add: sorted_nth_mono)
        with True show "xs ! i < val" by simp
      qed
      have rng: "first + len div 2 + 1 + (len - len div 2 - 1) = first + len"
        using False by arith
      have lt: "xs ! (first + len div 2) < val"
        using True by (simp add: middle_def)
      have IH: "middle + 1 \<le> r \<and> r \<le> first + len
         \<and> (\<forall>i < r. xs ! i < val)
         \<and> (\<forall>i. r \<le> i \<and> i < length xs \<longrightarrow> \<not> xs ! i < val)"
        using "1.IH"(1) [OF False lt \<open>sorted xs\<close> _ below] "1.prems"(2,4)
        unfolding rng r_def middle_def by blast
      have step: "lower_bound_loop xs val first len = r"
        using False lt unfolding middle_def r_def
        by (subst lower_bound_loop.simps) simp
      have "first \<le> r" using IH by (simp add: middle_def)
      then show ?thesis
        using IH unfolding step by blast
    next
      case nlt: False
      define r where "r = lower_bound_loop xs val first (len div 2)"
      have above: "\<forall>i. first + len div 2 \<le> i \<and> i < length xs \<longrightarrow> \<not> xs ! i < val"
      proof (intro allI impI)
        fix i assume "first + len div 2 \<le> i \<and> i < length xs"
        then have "xs ! middle \<le> xs ! i"
          using \<open>sorted xs\<close> by (simp add: sorted_nth_mono middle_def)
        with nlt show "\<not> xs ! i < val" by simp
      qed
      have nlt': "\<not> xs ! (first + len div 2) < val"
        using nlt by (simp add: middle_def)
      have le: "first + len div 2 \<le> length xs"
        using "1.prems"(2) by simp
      have IH: "first \<le> r \<and> r \<le> first + len div 2
         \<and> (\<forall>i < r. xs ! i < val)
         \<and> (\<forall>i. r \<le> i \<and> i < length xs \<longrightarrow> \<not> xs ! i < val)"
        using "1.IH"(2) [OF False nlt' \<open>sorted xs\<close> le "1.prems"(3) above]
        unfolding r_def by blast
      have step: "lower_bound_loop xs val first len = r"
        using False nlt' unfolding r_def
        by (subst lower_bound_loop.simps) simp
      have "len div 2 \<le> len" by simp
      with IH have "r \<le> first + len" by linarith
      then show ?thesis
        using IH unfolding step by blast
    qed
  qed
qed

lemma lower_bound_spec:
  assumes "sorted xs"
  shows "lower_bound xs val \<le> length xs
     \<and> (\<forall>i < lower_bound xs val. xs ! i < val)
     \<and> (\<forall>i. lower_bound xs val \<le> i \<and> i < length xs \<longrightarrow> \<not> xs ! i < val)"
  using lower_bound_loop_spec [of xs 0 "length xs" val] assms
  unfolding lower_bound_def by simp

lemma strict_sorted_imp_sorted: "sorted_wrt (<) (xs :: real list) \<Longrightarrow> sorted xs"
  by (induction xs) auto

text \<open>The edges that \<open>Init\<close> makes are strictly ascending, and every \<open>eta\<close> edge has its \<open>phi\<close> edges.\<close>

lemma sort_remdups_strict: "sorted_wrt (<) (sort (remdups (xs :: real list)))"
  by (simp add: strict_sorted_iff)

lemma Init_bins_sorted:
  "sorted_wrt (<) (fst (Init_bins param))
   \<and> length (snd (Init_bins param)) = length (fst (Init_bins param))
   \<and> (\<forall>phiBins \<in> set (snd (Init_bins param)). sorted_wrt (<) phiBins)"
  by (auto simp: Init_bins_def Let_def sort_remdups_strict)

lemma small_calorimeter_bins:
  "Init_bins [([-1, 0, 1], [-3, 0, 3])] = (fEtaBins small_calorimeter, fPhiBins small_calorimeter)"
  by (simp add: Init_bins_def small_calorimeter_def)

lemma lower_bound_unique:
  assumes "sorted xs" and "k \<le> length xs"
    and below: "\<forall>i < k. xs ! i < val"
    and above: "\<forall>i. k \<le> i \<and> i < length xs \<longrightarrow> \<not> xs ! i < val"
  shows "lower_bound xs val = k"
proof -
  define r where "r = lower_bound xs val"
  have r: "r \<le> length xs" "\<forall>i < r. xs ! i < val"
    "\<forall>i. r \<le> i \<and> i < length xs \<longrightarrow> \<not> xs ! i < val"
    using lower_bound_spec [OF assms(1), of val] unfolding r_def by blast+
  have "\<not> r < k"
  proof
    assume "r < k"
    then have "xs ! r < val" using below by blast
    moreover have "r < length xs" using \<open>r < k\<close> assms(2) by simp
    ultimately show False using r(3) by blast
  qed
  moreover have "\<not> k < r"
  proof
    assume "k < r"
    then have "xs ! k < val" using r(2) by blast
    moreover have "k < length xs" using \<open>k < r\<close> r(1) by simp
    ultimately show False using above by blast
  qed
  ultimately show ?thesis unfolding r_def by simp
qed

lemma lower_bound_on_edge:
  assumes "sorted_wrt (<) xs" and "j < length xs"
  shows "lower_bound xs (xs ! j) = j"
proof (rule lower_bound_unique)
  show "sorted xs" using assms(1) by (rule strict_sorted_imp_sorted)
  show "j \<le> length xs" using assms(2) by simp
  show "\<forall>i < j. xs ! i < xs ! j"
    using assms by (simp add: sorted_wrt_nth_less)
  show "\<forall>i. j \<le> i \<and> i < length xs \<longrightarrow> \<not> xs ! i < xs ! j"
  proof (intro allI impI)
    fix i assume "j \<le> i \<and> i < length xs"
    then have "xs ! j \<le> xs ! i"
      using strict_sorted_imp_sorted [OF assms(1)] by (simp add: sorted_nth_mono)
    then show "\<not> xs ! i < xs ! j" by simp
  qed
qed

lemma find_bin_Some_iff:
  assumes "sorted xs"
  shows "find_bin xs x = Some k
     \<longleftrightarrow> 0 < k \<and> k < length xs \<and> xs ! (k - 1) < x \<and> x \<le> xs ! k"
proof
  assume "find_bin xs x = Some k"
  then have k: "lower_bound xs x = k" "k \<noteq> 0" "k \<noteq> length xs"
    by (auto simp: find_bin_def Let_def split: if_splits)
  have s: "k \<le> length xs" "\<forall>i < k. xs ! i < x"
    "\<forall>i. k \<le> i \<and> i < length xs \<longrightarrow> \<not> xs ! i < x"
    using lower_bound_spec [OF assms, of x] unfolding k(1) by blast+
  have "k < length xs" using s(1) k(3) by simp
  moreover have "xs ! (k - 1) < x" using s(2) k(2) by simp
  moreover have "\<not> xs ! k < x" using s(3) \<open>k < length xs\<close> by blast
  ultimately show "0 < k \<and> k < length xs \<and> xs ! (k - 1) < x \<and> x \<le> xs ! k"
    using k(2) by simp
next
  assume a: "0 < k \<and> k < length xs \<and> xs ! (k - 1) < x \<and> x \<le> xs ! k"
  have "lower_bound xs x = k"
  proof (rule lower_bound_unique [OF assms])
    show "k \<le> length xs" using a by simp
    show "\<forall>i < k. xs ! i < x"
    proof (intro allI impI)
      fix i assume "i < k"
      then have "i \<le> k - 1" "k - 1 < length xs" using a by linarith+
      then have "xs ! i \<le> xs ! (k - 1)"
        using assms by (rule sorted_nth_mono [rotated])
      with a show "xs ! i < x" by simp
    qed
    show "\<forall>i. k \<le> i \<and> i < length xs \<longrightarrow> \<not> xs ! i < x"
    proof (intro allI impI)
      fix i assume "k \<le> i \<and> i < length xs"
      then have "xs ! k \<le> xs ! i"
        using assms by (simp add: sorted_nth_mono)
      with a show "\<not> xs ! i < x" by simp
    qed
  qed
  with a show "find_bin xs x = Some k"
    by (simp add: find_bin_def)
qed

text \<open>
  C1 (as the code has it). The bins are lower-exclusive and upper-inclusive: bin \<open>k\<close>
  is the interval \<open>(bins[k-1], bins[k]]\<close>. So a coordinate that lies exactly on the
  edge \<open>bins[j]\<close> is assigned to the bin below that edge (bin \<open>j\<close>, whose upper edge it
  is), not to the bin above it; a coordinate on the smallest edge \<open>bins.front()\<close> is in no
  bin and the track or particle is dropped, and a coordinate on the largest edge
  \<open>bins.back()\<close> is in the last bin and is kept. (The edges are strictly ascending:
  \<open>Init\<close> takes them from a map and from sets, see \<open>Init_bins_sorted\<close>.)
\<close>

theorem find_bin_edge_lower_bin:
  assumes "sorted_wrt (<) bins"
  shows "(\<forall>x k. find_bin bins x = Some k
            \<longleftrightarrow> 0 < k \<and> k < length bins \<and> bins ! (k - 1) < x \<and> x \<le> bins ! k)
       \<and> (\<forall>j < length bins. find_bin bins (bins ! j) = (if j = 0 then None else Some j))"
proof (intro conjI allI impI)
  fix x k
  show "find_bin bins x = Some k
     \<longleftrightarrow> 0 < k \<and> k < length bins \<and> bins ! (k - 1) < x \<and> x \<le> bins ! k"
    using find_bin_Some_iff [OF strict_sorted_imp_sorted [OF assms]] .
next
  fix j assume "j < length bins"
  then show "find_bin bins (bins ! j) = (if j = 0 then None else Some j)"
    using lower_bound_on_edge [OF assms, of j] by (simp add: find_bin_def)
qed

theorem find_bin_edge_lower_bin_witness:
  "sorted_wrt (<) [-1, 0, 1 :: real]
   \<and> find_bin [-1, 0, 1] 0 = Some 1
   \<and> find_bin [-1, 0, 1] (-1) = None
   \<and> find_bin [-1, 0, 1] 1 = Some 2"
proof -
  have s: "sorted_wrt (<) [-1, 0, 1 :: real]" by simp
  have e: "\<forall>j < length [-1, 0, 1 :: real].
      find_bin [-1, 0, 1] ([-1, 0, 1] ! j) = (if j = 0 then None else Some j)"
    using find_bin_edge_lower_bin [OF s] by blast
  have "find_bin [-1, 0, 1] ([-1, 0, 1 :: real] ! 1) = Some 1"
    using e [rule_format, of 1] by simp
  moreover have "find_bin [-1, 0, 1] ([-1, 0, 1 :: real] ! 0) = None"
    using e [rule_format, of 0] by simp
  moreover have "find_bin [-1, 0, 1] ([-1, 0, 1 :: real] ! 2) = Some 2"
    using e [rule_format, of 2] by simp
  ultimately show ?thesis using s by simp
qed

text \<open>
  C1 as the spec states it fails: with the \<open>eta\<close> edges \<open>-1, 0, 1\<close> a particle at
  \<open>eta = 0\<close> is put into bin 1 (between the edges \<open>-1\<close> and \<open>0\<close>), not into the upper bin 2,
  and a particle at \<open>eta = 1 = fEtaBins.back()\<close> is put into bin 2 instead of being dropped:
  a photon of 10 GeV there makes a tower with the \<open>eta\<close> edges 0 and 1.
\<close>

theorem find_bin_upper_bin_counterexample:
  "find_bin [-1, 0, 1] 0 \<noteq> Some 2 \<and> find_bin [-1, 0, 1] (last [-1, 0, 1]) \<noteq> None
   \<and> Eta (Position (particle_at 22 1 (1/2) 10)) = last (fEtaBins edge_photon_event)
   \<and> Calorimeter_Process edge_photon_event = Inr (projr (Calorimeter_Process edge_photon_event))
   \<and> map Eem (fTowerOutputArray (projr (Calorimeter_Process edge_photon_event))) = [10]
   \<and> map Edges (fTowerOutputArray (projr (Calorimeter_Process edge_photon_event))) = [[0, 1, 0, 3]]"
  by (simp add: edge_photon_event_def Calorimeter_hits_def Calorimeter_scan_def
      Calorimeter_Process_def small_calorimeter_def particle_at_def Init_fractions_def
      find_fraction_def find_eta_phi_bin_def find_bin_def lower_bound_def lower_bound_loop.simps
      SetPtEtaPhiE_def Let_def towerHit_def hit_flags_def hit_number_def hitEtaPhi_def
      hit_etaBin_def hit_phiBin_def new_tower_def FinalizeTower_def finalized_tower_def
      tower_energies_def LogNormal_def track_hit_def particle_hit_def At_def
      NewCandidate_def AddCandidate_def Clone_def zero_vector_def)

section \<open>Calorimeter: log-normal smearing\<close>

text \<open>
  C9. \<open>LogNormal(mean, sigma)\<close> is 0, and draws no random number, for every
  \<open>mean \<le> 0\<close>; for \<open>mean > 0\<close> it is \<open>exp(a + b g)\<close> with
  \<open>b = sqrt(ln(1 + sigma\<^sup>2/mean\<^sup>2))\<close>, \<open>a = ln(mean) - b\<^sup>2/2\<close> and \<open>g\<close> the one
  standard normal draw it makes.
\<close>

theorem LogNormal_value:
  "(mean \<le> 0 \<longrightarrow> LogNormal mean sigma gaus n = (0, n))
   \<and> (0 < mean \<longrightarrow>
        LogNormal mean sigma gaus n =
          (exp (ln mean - (sqrt (ln (1 + sigma\<^sup>2 / mean\<^sup>2)))\<^sup>2 / 2
                + sqrt (ln (1 + sigma\<^sup>2 / mean\<^sup>2)) * gaus n), Suc n))"
  by (simp add: LogNormal_def Let_def power2_eq_square)

theorem LogNormal_value_witness:
  "LogNormal 0 1 (\<lambda>i. 1) 0 = (0, 0) \<and> LogNormal 1 0 (\<lambda>i. 1) 0 = (1, 1)"
proof -
  have "LogNormal 0 1 (\<lambda>i. 1) 0 = (0, 0)"
    using LogNormal_value [of 0 1 "\<lambda>i. 1" 0] by simp
  moreover have "LogNormal 1 0 (\<lambda>i. 1) 0 = (1, 1)"
    using LogNormal_value [of 1 0 "\<lambda>i. 1" 0] by simp
  ultimately show ?thesis by simp
qed

section \<open>Calorimeter: the sorted hits\<close>

lemma sint_hitEtaPhi: "sint (hitEtaPhi h) = sint h div 2 ^ 32"
  by (simp add: hitEtaPhi_def sint_signed_drop_bit_eq drop_bit_eq_div)

lemma mask_FF: "(0xFF :: 64 word) = mask 8"
  by (simp add: mask_eq_exp_minus_1)

lemma mask_FFFF: "(0xFFFF :: 64 word) = mask 16"
  by (simp add: mask_eq_exp_minus_1)

lemma uint_hit_flags: "uint (hit_flags h) = (sint h div 2 ^ 24) mod 2 ^ 8"
proof -
  have "uint (hit_flags h) = take_bit 8 (drop_bit 24 (sint h))"
    unfolding hit_flags_def mask_FF
    by (rule bit_eqI) (auto simp: bit_simps min_def)
  then show ?thesis by (simp add: take_bit_eq_mod drop_bit_eq_div)
qed

lemma hitEtaPhi_mono: "sint a \<le> sint b \<Longrightarrow> sint (hitEtaPhi a) \<le> sint (hitEtaPhi b)"
  by (simp add: sint_hitEtaPhi zdiv_mono1)

lemma hit_flags_mono:
  assumes "sint a \<le> sint b" and "hitEtaPhi a = hitEtaPhi b"
  shows "hit_flags a \<le> hit_flags b"
proof -
  have q: "sint a div 2 ^ 32 = sint b div 2 ^ 32"
    using assms(2) sint_hitEtaPhi by metis
  have "sint a div 2 ^ 24 \<le> sint b div 2 ^ 24"
    using assms(1) by (simp add: zdiv_mono1)
  moreover have "(sint a div 2 ^ 24) div 2 ^ 8 = (sint b div 2 ^ 24) div 2 ^ 8"
    using q by (simp add: zdiv_zmult2_eq [symmetric])
  ultimately have "(sint a div 2 ^ 24) mod 2 ^ 8 \<le> (sint b div 2 ^ 24) mod 2 ^ 8"
    by (smt (verit) mult_div_mod_eq)
  then show ?thesis
    by (simp add: word_le_def uint_hit_flags)
qed

lemma sorted_hits_nth_le:
  assumes "i \<le> j" and "j < length hits"
  shows "sint (sort_key sint hits ! i) \<le> sint (sort_key sint hits ! j)"
proof -
  have s: "sorted (map sint (sort_key sint hits))" by (rule sorted_sort_key)
  have l: "j < length (map sint (sort_key sint hits))" using assms(2) by simp
  have "i < length (sort_key sint hits)" "j < length (sort_key sint hits)"
    using assms by simp_all
  then show ?thesis
    using sorted_nth_mono [OF s assms(1) l] by (simp only: nth_map)
qed

lemma sorted_hits_contiguous:
  assumes "i < j" and "j < k" and "k < length hits"
    and "hitEtaPhi (sort_key sint hits ! i) = hitEtaPhi (sort_key sint hits ! k)"
  shows "hitEtaPhi (sort_key sint hits ! j) = hitEtaPhi (sort_key sint hits ! i)"
proof -
  have "sint (hitEtaPhi (sort_key sint hits ! i)) \<le> sint (hitEtaPhi (sort_key sint hits ! j))"
    using assms by (intro hitEtaPhi_mono sorted_hits_nth_le) simp_all
  moreover have "sint (hitEtaPhi (sort_key sint hits ! j)) \<le> sint (hitEtaPhi (sort_key sint hits ! k))"
    using assms by (intro hitEtaPhi_mono sorted_hits_nth_le) simp_all
  ultimately have "sint (hitEtaPhi (sort_key sint hits ! j)) = sint (hitEtaPhi (sort_key sint hits ! i))"
    using assms(4) by simp
  then show ?thesis by (rule signed_word_eqI)
qed

lemma sorted_hits_flags:
  assumes "i < j" and "j < length hits"
    and "hitEtaPhi (sort_key sint hits ! i) = hitEtaPhi (sort_key sint hits ! j)"
  shows "hit_flags (sort_key sint hits ! i) \<le> hit_flags (sort_key sint hits ! j)"
  using assms by (intro hit_flags_mono sorted_hits_nth_le) simp_all

lemma nat_high_bit: "n < 2 ^ k \<Longrightarrow> bit (n::nat) m \<Longrightarrow> m < k"
proof (rule ccontr)
  assume a: "n < 2 ^ k" "bit n m" "\<not> m < k"
  have "(2::nat) ^ k \<le> 2 ^ m" using a(3) by simp
  then have "n < 2 ^ m" using a(1) by linarith
  then show False using a(2) by (simp add: bit_iff_odd)
qed

lemma word16_high_bit: "(f :: 16 word) < 256 \<Longrightarrow> bit f m \<Longrightarrow> m < 8"
proof -
  assume a: "f < 256" "bit f m"
  have "unat f < 2 ^ 8" using a(1) by (simp add: word_less_nat_alt)
  moreover have "bit (unat f) m" using a(2) by (simp add: bit_unsigned_iff)
  ultimately show ?thesis by (rule nat_high_bit)
qed

lemma hit_flags_towerHit:
  assumes "number < 2 ^ 24" and "flags < 256"
  shows "hit_flags (towerHit etaBin phiBin flags number) = flags"
proof -
  note n = nat_high_bit [OF assms(1)] and f = word16_high_bit [OF assms(2)]
  have nb: "\<not> bit number 31" using n by fastforce
  have fb: "\<not> bit flags 15" using f by fastforce
  show ?thesis
    unfolding hit_flags_def towerHit_def mask_FF
    by (rule bit_word_eqI) (auto simp: bit_simps min_def nb fb dest: n f)
qed

lemma hit_phiBin_towerHit:
  assumes "number < 2 ^ 24" and "flags < 256" and "phiBin < 2 ^ 15"
  shows "hit_phiBin (towerHit etaBin phiBin flags number) = phiBin"
proof -
  note n = nat_high_bit [OF assms(1)] and f = word16_high_bit [OF assms(2)]
    and p = nat_high_bit [OF assms(3)]
  have nb: "\<not> bit number 31" using n by fastforce
  have fb: "\<not> bit flags 15" using f by fastforce
  have pb: "\<not> bit phiBin 15" using p by fastforce
  have "signed_drop_bit 32 (towerHit etaBin phiBin flags number) AND 0xFFFF
      = (word_of_nat phiBin :: 64 word)"
    unfolding towerHit_def mask_FFFF
    by (rule bit_word_eqI) (auto simp: bit_simps min_def nb fb pb dest: n f p)
  moreover have "phiBin < 2 ^ 64"
    using assms(3) by (rule less_trans) simp
  ultimately show ?thesis
    by (simp add: hit_phiBin_def unat_of_nat)
qed

lemma hit_etaBin_towerHit:
  assumes "number < 2 ^ 24" and "flags < 256" and "phiBin < 2 ^ 15" and "etaBin < 2 ^ 15"
  shows "hit_etaBin (towerHit etaBin phiBin flags number) = etaBin"
proof -
  note n = nat_high_bit [OF assms(1)] and f = word16_high_bit [OF assms(2)]
    and p = nat_high_bit [OF assms(3)] and e = nat_high_bit [OF assms(4)]
  have nb: "\<not> bit number 31" using n by fastforce
  have fb: "\<not> bit flags 15" using f by fastforce
  have pb: "\<not> bit phiBin 15" using p by fastforce
  have eb: "\<not> bit etaBin 15" using e by fastforce
  have "signed_drop_bit 48 (towerHit etaBin phiBin flags number) AND 0xFFFF
      = (word_of_nat etaBin :: 64 word)"
    unfolding towerHit_def mask_FFFF
    by (rule bit_word_eqI) (auto simp: bit_simps min_def nb fb pb eb dest: n f p e)
  moreover have "etaBin < 2 ^ 64"
    using assms(4) by (rule less_trans) simp
  ultimately show ?thesis
    by (simp add: hit_etaBin_def unat_of_nat)
qed

lemma hitEtaPhi_towerHit:
  assumes "number < 2 ^ 24" and "flags < 256" and "phiBin < 2 ^ 15" and "etaBin < 2 ^ 15"
  shows "hitEtaPhi (towerHit etaBin phiBin flags number)
       = push_bit 16 (word_of_nat etaBin) OR word_of_nat phiBin"
proof -
  note n = nat_high_bit [OF assms(1)] and f = word16_high_bit [OF assms(2)]
    and p = nat_high_bit [OF assms(3)] and e = nat_high_bit [OF assms(4)]
  have nb: "\<not> bit number 31" using n by fastforce
  have fb: "\<not> bit flags 15" using f by fastforce
  have pb: "\<not> bit phiBin 15" using p by fastforce
  have eb: "\<not> bit etaBin 15" using e by fastforce
  show ?thesis
    unfolding hitEtaPhi_def towerHit_def
    by (rule bit_word_eqI) (auto simp: bit_simps min_def nb fb eb pb dest: n f e p)
qed

lemma hit_bins_of_hitEtaPhi:
  "hit_phiBin h = unat (hitEtaPhi h AND 0xFFFF)
   \<and> hit_etaBin h = unat (signed_drop_bit 16 (hitEtaPhi h) AND 0xFFFF)"
  by (simp add: hit_phiBin_def hit_etaBin_def hitEtaPhi_def signed_drop_bit_signed_drop_bit)

lemma lower_bound_loop_bounds:
  "first \<le> lower_bound_loop xs val first len \<and> lower_bound_loop xs val first len \<le> first + len"
proof (induction xs val first len rule: lower_bound_loop.induct)
  case (1 xs val first len)
  show ?case
  proof (cases "len = 0")
    case True
    then show ?thesis by (subst (1 2) lower_bound_loop.simps) simp
  next
    case False
    show ?thesis
    proof (cases "xs ! (first + len div 2) < val")
      case True
      have step: "lower_bound_loop xs val first len
          = lower_bound_loop xs val (first + len div 2 + 1) (len - len div 2 - 1)"
        using False True by (subst lower_bound_loop.simps) simp
      have "first + len div 2 + 1 + (len - len div 2 - 1) = first + len"
        using False by arith
      then show ?thesis
        using "1.IH"(1) [OF False True] unfolding step by linarith
    next
      case nlt: False
      have step: "lower_bound_loop xs val first len = lower_bound_loop xs val first (len div 2)"
        using False nlt by (subst lower_bound_loop.simps) simp
      have "len div 2 \<le> len" by simp
      then show ?thesis
        using "1.IH"(2) [OF False nlt] unfolding step by linarith
    qed
  qed
qed

lemma find_bin_range: "find_bin bins x = Some k \<Longrightarrow> 0 < k \<and> k < length bins"
  using lower_bound_loop_bounds [of 0 bins x "length bins"]
  by (auto simp: find_bin_def lower_bound_def Let_def split: if_splits)

lemma find_eta_phi_bin_range:
  "find_eta_phi_bin etaBins phiBinss eta phi = Some (etaBin, phiBin)
   \<Longrightarrow> 0 < etaBin \<and> etaBin < length etaBins \<and> 0 < phiBin \<and> phiBin < length (phiBinss ! etaBin)"
  by (auto simp: find_eta_phi_bin_def split: option.splits dest: find_bin_range)

text \<open>What a hit of the event looks like: the flags are 0, 1 or 2 and every field is in range.\<close>

lemma track_loop_hits:
  "track_loop s number tracks = Inr s' \<Longrightarrow>
     fEtaBins s' = fEtaBins s \<and> fPhiBins s' = fPhiBins s
     \<and> (\<forall>h \<in> set (fTowerHits s') - set (fTowerHits s).
           \<exists>etaBin phiBin k. h = towerHit etaBin phiBin 1 k
              \<and> k < number + length tracks
              \<and> etaBin < length (fEtaBins s) \<and> phiBin < length (fPhiBins s ! etaBin))"
proof (induction tracks arbitrary: s number)
  case Nil
  then show ?case by simp
next
  case (Cons track rest)
  obtain ecalFraction hcalFraction where fr:
    "find_fraction (fFractionMap s) \<bar>PID track\<bar> = Inr (ecalFraction, hcalFraction)"
    using Cons.prems by (auto simp: Let_def split: sum.splits)
  define s1 where "s1 = s\<lparr>fTrackECalFractions := fTrackECalFractions s @ [ecalFraction],
                      fTrackHCalFractions := fTrackHCalFractions s @ [hcalFraction],
                      fTrackPDGId := fTrackPDGId s @ [\<bar>PID track\<bar>]\<rparr>"
  show ?case
  proof (cases "find_eta_phi_bin (fEtaBins s) (fPhiBins s)
                  (Eta (Position track)) (Phi (Position track))")
    case None
    then have "track_loop s1 (number + 1) rest = Inr s'"
      using Cons.prems fr by (simp add: Let_def s1_def)
    from Cons.IH [OF this] show ?thesis
      by (fastforce simp: s1_def)
  next
    case (Some bins)
    obtain etaBin phiBin where bins: "bins = (etaBin, phiBin)" by (cases bins)
    define s2 where "s2 = s1\<lparr>fTowerHits := fTowerHits s1 @ [towerHit etaBin phiBin 1 number]\<rparr>"
    have "track_loop s2 (number + 1) rest = Inr s'"
      using Cons.prems fr Some bins by (simp add: Let_def s1_def s2_def)
    from Cons.IH [OF this] find_eta_phi_bin_range [OF Some [unfolded bins]]
    show ?thesis
      by (fastforce simp: s1_def s2_def)
  qed
qed

lemma particle_loop_hits:
  "particle_loop s number particles = Inr s' \<Longrightarrow>
     fEtaBins s' = fEtaBins s \<and> fPhiBins s' = fPhiBins s
     \<and> (\<forall>h \<in> set (fTowerHits s') - set (fTowerHits s).
           \<exists>etaBin phiBin flags k. h = towerHit etaBin phiBin flags k
              \<and> (flags = 0 \<or> flags = 2)
              \<and> k < number + length particles
              \<and> etaBin < length (fEtaBins s) \<and> phiBin < length (fPhiBins s ! etaBin))"
proof (induction particles arbitrary: s number)
  case Nil
  then show ?case by simp
next
  case (Cons particle rest)
  obtain ecalFraction hcalFraction where fr:
    "find_fraction (fFractionMap s) \<bar>PID particle\<bar> = Inr (ecalFraction, hcalFraction)"
    using Cons.prems by (auto simp: Let_def split: sum.splits)
  define s1 where "s1 = s\<lparr>fTowerECalFractions := fTowerECalFractions s @ [ecalFraction],
                      fTowerHCalFractions := fTowerHCalFractions s @ [hcalFraction],
                      fParticlePDGId := fParticlePDGId s @ [\<bar>PID particle\<bar>]\<rparr>"
  show ?case
  proof (cases "ecalFraction < 1 / 10 ^ 9 \<and> hcalFraction < 1 / 10 ^ 9
      \<or> find_eta_phi_bin (fEtaBins s) (fPhiBins s)
           (Eta (Position particle)) (Phi (Position particle)) = None")
    case True
    then have "particle_loop s1 (number + 1) rest = Inr s'"
      using Cons.prems fr by (auto simp: Let_def s1_def split: if_splits)
    from Cons.IH [OF this] show ?thesis
      by (fastforce simp: s1_def)
  next
    case False
    then obtain etaBin phiBin where bins: "find_eta_phi_bin (fEtaBins s) (fPhiBins s)
           (Eta (Position particle)) (Phi (Position particle)) = Some (etaBin, phiBin)"
      by auto
    define flags :: "16 word"
      where "flags = push_bit 1 (of_bool (\<bar>PID particle\<bar> = 11 \<or> \<bar>PID particle\<bar> = 22))"
    define s2 where "s2 = s1\<lparr>fTowerHits := fTowerHits s1 @ [towerHit etaBin phiBin flags number]\<rparr>"
    have fl: "flags = 0 \<or> flags = 2" by (simp add: flags_def)
    have "particle_loop s2 (number + 1) rest = Inr s'"
      using Cons.prems fr False bins by (auto simp: Let_def s1_def s2_def flags_def split: if_splits)
    from Cons.IH [OF this] find_eta_phi_bin_range [OF bins] fl
    show ?thesis
      by (fastforce simp: s1_def s2_def)
  qed
qed

lemma Calorimeter_hits_fields:
  assumes "Calorimeter_hits s0 = Inr s"
    and "length (fTrackInputArray s0) \<le> 2 ^ 24"
    and "length (fParticleInputArray s0) \<le> 2 ^ 24"
    and "length (fEtaBins s0) \<le> 2 ^ 15"
    and "length (fPhiBins s0) = length (fEtaBins s0)"
    and "\<forall>phiBins \<in> set (fPhiBins s0). length phiBins \<le> 2 ^ 15"
    and "h \<in> set (fTowerHits s)"
  shows "\<exists>etaBin phiBin flags number. h = towerHit etaBin phiBin flags number
           \<and> (flags = 0 \<or> flags = 1 \<or> flags = 2)
           \<and> number < 2 ^ 24 \<and> etaBin < 2 ^ 15 \<and> phiBin < 2 ^ 15"
proof -
  define c where "c = s0\<lparr>fTowerHits := [], fTowerECalFractions := [], fTowerHCalFractions := [],
                 fTrackECalFractions := [], fTrackHCalFractions := [],
                 fParticlePDGId := [], fTrackPDGId := []\<rparr>"
  obtain s1 s2 where t: "track_loop c 0 (fTrackInputArray c) = Inr s1"
    and p: "particle_loop s1 0 (fParticleInputArray s1) = Inr s2"
    and s: "s = s2\<lparr>fTowerHits := sort_key sint (fTowerHits s2)\<rparr>"
    using assms(1) unfolding Calorimeter_hits_def c_def [symmetric]
    by (auto simp: Let_def split: sum.splits)
  have keep: "\<And>n tr x. track_loop c n tr = Inr x \<Longrightarrow> fParticleInputArray x = fParticleInputArray c"
  proof -
    fix n tr x show "track_loop c n tr = Inr x \<Longrightarrow> fParticleInputArray x = fParticleInputArray c"
    proof (induction tr arbitrary: c n)
      case Nil then show ?case by simp
    next
      case (Cons a tr)
      then show ?case
        by (auto simp: Let_def split: sum.splits option.splits prod.splits)
    qed
  qed
  have parts: "fParticleInputArray s1 = fParticleInputArray s0"
    using keep [OF t] by (simp add: c_def)
  have bins1: "fEtaBins s1 = fEtaBins s0" "fPhiBins s1 = fPhiBins s0"
    using track_loop_hits [OF t] by (simp_all add: c_def)
  have phi_len: "\<And>e. e < length (fEtaBins s0) \<Longrightarrow> length (fPhiBins s0 ! e) \<le> 2 ^ 15"
    using assms(5,6) by simp
  have hs2: "h \<in> set (fTowerHits s2)" using assms(7) s by simp
  show ?thesis
  proof (cases "h \<in> set (fTowerHits s1)")
    case True
    then have "h \<in> set (fTowerHits s1) - set (fTowerHits c)" by (simp add: c_def)
    then obtain etaBin phiBin k where k: "h = towerHit etaBin phiBin 1 k"
      "k < 0 + length (fTrackInputArray c)" "etaBin < length (fEtaBins c)"
      "phiBin < length (fPhiBins c ! etaBin)"
      using track_loop_hits [OF t] by blast
    have "k < 2 ^ 24" using k(2) assms(2) by (simp add: c_def)
    moreover have "etaBin < 2 ^ 15" using k(3) assms(4) by (simp add: c_def)
    moreover have "phiBin < 2 ^ 15"
      using k(3,4) phi_len [of etaBin] by (simp add: c_def)
    ultimately show ?thesis using k(1) by blast
  next
    case False
    then have "h \<in> set (fTowerHits s2) - set (fTowerHits s1)" using hs2 by simp
    then obtain etaBin phiBin flags k where k: "h = towerHit etaBin phiBin flags k"
      "flags = 0 \<or> flags = 2"
      "k < 0 + length (fParticleInputArray s1)" "etaBin < length (fEtaBins s1)"
      "phiBin < length (fPhiBins s1 ! etaBin)"
      using particle_loop_hits [OF p] by blast
    have "k < 2 ^ 24" using k(3) assms(3) parts by simp
    moreover have "etaBin < 2 ^ 15" using k(4) assms(4) bins1 by simp
    moreover have "phiBin < 2 ^ 15"
      using k(4,5) phi_len [of etaBin] bins1 by simp
    ultimately show ?thesis using k(1,2) by blast
  qed
qed

lemma Calorimeter_hits_sorted:
  assumes "Calorimeter_hits s0 = Inr s"
  shows "\<exists>hits. fTowerHits s = sort_key sint hits"
  using assms unfolding Calorimeter_hits_def
  by (auto simp: Let_def split: sum.splits)

text \<open>
  C6 (as the code has it). After the sort all hits of one \<open>(etaBin, phiBin)\<close> tower are
  contiguous, and within a tower the hits are in ascending order of their flags:
  first the hits of particles that are neither electrons nor photons (flags 0), then the
  track hits (flags 1), then the hits of electrons and photons (flags 2). So a track hit
  precedes every electron or photon hit of its tower and follows every other particle
  hit. This is for an event with at most \<open>2\<^sup>2\<^sup>4\<close> tracks and particles and a grid of at
  most \<open>2\<^sup>1\<^sup>5\<close> edges, where every field of a hit is read back as it was packed.
\<close>

theorem sorted_hits_towers_then_flags:
  assumes "Calorimeter_hits s0 = Inr s"
    and "length (fTrackInputArray s0) \<le> 2 ^ 24"
    and "length (fParticleInputArray s0) \<le> 2 ^ 24"
    and "length (fEtaBins s0) \<le> 2 ^ 15"
    and "length (fPhiBins s0) = length (fEtaBins s0)"
    and "\<forall>phiBins \<in> set (fPhiBins s0). length phiBins \<le> 2 ^ 15"
  shows "(\<forall>i j k. i < j \<and> j < k \<and> k < length (fTowerHits s)
            \<and> hitEtaPhi (fTowerHits s ! i) = hitEtaPhi (fTowerHits s ! k)
            \<longrightarrow> hitEtaPhi (fTowerHits s ! j) = hitEtaPhi (fTowerHits s ! i))
       \<and> (\<forall>i j. i < j \<and> j < length (fTowerHits s)
            \<and> hitEtaPhi (fTowerHits s ! i) = hitEtaPhi (fTowerHits s ! j)
            \<longrightarrow> hit_flags (fTowerHits s ! i) \<le> hit_flags (fTowerHits s ! j))
       \<and> (\<forall>h \<in> set (fTowerHits s).
            \<exists>etaBin phiBin flags number. h = towerHit etaBin phiBin flags number
              \<and> (flags = 0 \<or> flags = 1 \<or> flags = 2)
              \<and> hit_flags h = flags \<and> hit_etaBin h = etaBin \<and> hit_phiBin h = phiBin
              \<and> hitEtaPhi h = push_bit 16 (word_of_nat etaBin) OR word_of_nat phiBin)"
proof (intro conjI allI impI ballI)
  obtain hits where hits: "fTowerHits s = sort_key sint hits"
    using Calorimeter_hits_sorted [OF assms(1)] by blast
  {
    fix i j k
    assume "i < j \<and> j < k \<and> k < length (fTowerHits s)
            \<and> hitEtaPhi (fTowerHits s ! i) = hitEtaPhi (fTowerHits s ! k)"
    then show "hitEtaPhi (fTowerHits s ! j) = hitEtaPhi (fTowerHits s ! i)"
      unfolding hits using sorted_hits_contiguous [of i j k hits] by simp
  next
    fix i j
    assume "i < j \<and> j < length (fTowerHits s)
            \<and> hitEtaPhi (fTowerHits s ! i) = hitEtaPhi (fTowerHits s ! j)"
    then show "hit_flags (fTowerHits s ! i) \<le> hit_flags (fTowerHits s ! j)"
      unfolding hits using sorted_hits_flags [of i j hits] by simp
  }
next
  fix h assume "h \<in> set (fTowerHits s)"
  from Calorimeter_hits_fields [OF assms this]
  obtain etaBin phiBin flags number where f: "h = towerHit etaBin phiBin flags number"
    "flags = 0 \<or> flags = 1 \<or> flags = 2"
    "number < 2 ^ 24" "etaBin < 2 ^ 15" "phiBin < 2 ^ 15"
    by blast
  have fl: "flags < 256" using f(2) by auto
  show "\<exists>etaBin phiBin flags number. h = towerHit etaBin phiBin flags number
              \<and> (flags = 0 \<or> flags = 1 \<or> flags = 2)
              \<and> hit_flags h = flags \<and> hit_etaBin h = etaBin \<and> hit_phiBin h = phiBin
              \<and> hitEtaPhi h = push_bit 16 (word_of_nat etaBin) OR word_of_nat phiBin"
    using f(1,2) hit_flags_towerHit [OF f(3) fl] hit_etaBin_towerHit [OF f(3) fl f(5) f(4)]
      hit_phiBin_towerHit [OF f(3) fl f(5)] hitEtaPhi_towerHit [OF f(3) fl f(5) f(4)]
    by blast
qed

lemmas calorimeter_eval =
  Calorimeter_hits_def Calorimeter_scan_def Calorimeter_Process_def
  small_calorimeter_def particle_at_def Init_fractions_def find_fraction_def
  find_eta_phi_bin_def find_bin_def lower_bound_def lower_bound_loop.simps
  SetPtEtaPhiE_def Let_def towerHit_def hit_flags_def hit_number_def hitEtaPhi_def
  hit_etaBin_def hit_phiBin_def new_tower_def FinalizeTower_def finalized_tower_def
  tower_energies_def LogNormal_def track_hit_def particle_hit_def At_def
  NewCandidate_def AddCandidate_def Clone_def zero_vector_def

lemma pion_event_hits:
  "Calorimeter_hits pion_event = Inr (projr (Calorimeter_hits pion_event))
   \<and> fTowerHits (projr (Calorimeter_hits pion_event)) = [towerHit 2 2 0 0, towerHit 2 2 1 0]"
  by (simp add: pion_event_def calorimeter_eval)

lemma pion_event_sizes:
  "length (fTrackInputArray pion_event) \<le> 2 ^ 24
   \<and> length (fParticleInputArray pion_event) \<le> 2 ^ 24
   \<and> length (fEtaBins pion_event) \<le> 2 ^ 15
   \<and> length (fPhiBins pion_event) = length (fEtaBins pion_event)
   \<and> (\<forall>phiBins \<in> set (fPhiBins pion_event). length phiBins \<le> 2 ^ 15)"
  by (simp add: pion_event_def small_calorimeter_def)

theorem sorted_hits_towers_then_flags_witness:
  "Calorimeter_hits pion_event = Inr (projr (Calorimeter_hits pion_event))
   \<and> length (fTrackInputArray pion_event) \<le> 2 ^ 24
   \<and> length (fParticleInputArray pion_event) \<le> 2 ^ 24
   \<and> length (fEtaBins pion_event) \<le> 2 ^ 15
   \<and> length (fPhiBins pion_event) = length (fEtaBins pion_event)
   \<and> map length (fPhiBins pion_event) = [3, 3, 3]
   \<and> hitEtaPhi (fTowerHits (projr (Calorimeter_hits pion_event)) ! 0)
       = hitEtaPhi (fTowerHits (projr (Calorimeter_hits pion_event)) ! 1)
   \<and> hit_flags (fTowerHits (projr (Calorimeter_hits pion_event)) ! 0)
       \<le> hit_flags (fTowerHits (projr (Calorimeter_hits pion_event)) ! 1)"
proof -
  note h = pion_event_hits [THEN conjunct1]
  note z = pion_event_sizes
  have t: "\<forall>i j. i < j \<and> j < length (fTowerHits (projr (Calorimeter_hits pion_event)))
            \<and> hitEtaPhi (fTowerHits (projr (Calorimeter_hits pion_event)) ! i)
              = hitEtaPhi (fTowerHits (projr (Calorimeter_hits pion_event)) ! j)
            \<longrightarrow> hit_flags (fTowerHits (projr (Calorimeter_hits pion_event)) ! i)
              \<le> hit_flags (fTowerHits (projr (Calorimeter_hits pion_event)) ! j)"
    using sorted_hits_towers_then_flags [OF h z [THEN conjunct1]
        z [THEN conjunct2, THEN conjunct1] z [THEN conjunct2, THEN conjunct2, THEN conjunct1]
        z [THEN conjunct2, THEN conjunct2, THEN conjunct2, THEN conjunct1]
        z [THEN conjunct2, THEN conjunct2, THEN conjunct2, THEN conjunct2]]
    by blast
  have e: "hitEtaPhi (fTowerHits (projr (Calorimeter_hits pion_event)) ! 0)
       = hitEtaPhi (fTowerHits (projr (Calorimeter_hits pion_event)) ! 1)"
    by (simp add: pion_event_hits [THEN conjunct2] hitEtaPhi_def towerHit_def)
  have "hit_flags (fTowerHits (projr (Calorimeter_hits pion_event)) ! 0)
       \<le> hit_flags (fTowerHits (projr (Calorimeter_hits pion_event)) ! 1)"
    using t [rule_format, of 0 1] e by (simp add: pion_event_hits [THEN conjunct2])
  moreover have "map length (fPhiBins pion_event) = [3, 3, 3]"
    by (simp add: pion_event_def small_calorimeter_def)
  ultimately show ?thesis using h z e by blast
qed

text \<open>
  C6 as the spec states it fails. One charged pion makes a track hit and a particle hit
  in the same tower; the particle is no electron or photon, so its flags are 0 and the
  sort puts its hit before the track hit, whose flags are 1.
\<close>

theorem track_hit_after_particle_hit_counterexample:
  "fTowerHits (projr (Calorimeter_hits pion_event)) = [towerHit 2 2 0 0, towerHit 2 2 1 0]
   \<and> hitEtaPhi (towerHit 2 2 0 0) = hitEtaPhi (towerHit 2 2 1 0)
   \<and> hit_flags (towerHit 2 2 0 0) AND 1 = 0
   \<and> hit_flags (towerHit 2 2 1 0) AND 1 \<noteq> 0"
  by (simp add: pion_event_hits [THEN conjunct2] hitEtaPhi_def towerHit_def hit_flags_def)

section \<open>Calorimeter: what a finalized tower is added to\<close>

lemma finalized_tower_energy:
  "Eem (finalized_tower s tower) = fst (tower_energies s)
   \<and> Ehad (finalized_tower s tower) = fst (snd (tower_energies s))"
  by (simp add: finalized_tower_def Let_def split: prod.splits)

lemma FinalizeTower_towers:
  assumes "fTower s = Some tower"
  shows "fTowerOutputArray (FinalizeTower s) =
     (if Eem (finalized_tower s tower) + Ehad (finalized_tower s tower) > 0
      then fTowerOutputArray s @ [finalized_tower s tower] else fTowerOutputArray s)"
  using assms finalized_tower_energy [of s tower]
  by (simp add: FinalizeTower_def Let_def split: prod.splits)

lemma FinalizeTower_photons:
  assumes "fTower s = Some tower"
  shows "fPhotonOutputArray (FinalizeTower s) =
     (if Eem (finalized_tower s tower) + Ehad (finalized_tower s tower) > 0
         \<and> fTowerPhotonHits s > 0 \<and> fTowerTrackHits s = 0
      then fPhotonOutputArray s @ [finalized_tower s tower] else fPhotonOutputArray s)"
  using assms finalized_tower_energy [of s tower]
  by (simp add: FinalizeTower_def Let_def split: prod.splits)

lemma FinalizeTower_eflowTracks:
  assumes "fTower s = Some tower"
  shows "fEFlowTrackOutputArray (FinalizeTower s) = fEFlowTrackOutputArray s @ fTowerTrackArray s"
  using assms
  by (simp add: FinalizeTower_def Let_def split: prod.splits)

text \<open>
  C8 (as the code has it). A finalized tower is added to the photons array if and only
  if its smeared energy \<open>Eem + Ehad\<close> is strictly positive and it has at least one
  electron or photon hit and no track hit; otherwise the photons array is left as it was.
\<close>

theorem FinalizeTower_photon_iff:
  assumes "fTower s = Some tower"
  shows "(fPhotonOutputArray (FinalizeTower s) = fPhotonOutputArray s @ [finalized_tower s tower]
           \<longleftrightarrow> Eem (finalized_tower s tower) + Ehad (finalized_tower s tower) > 0
               \<and> fTowerPhotonHits s > 0 \<and> fTowerTrackHits s = 0)
       \<and> (fPhotonOutputArray (FinalizeTower s) = fPhotonOutputArray s
           \<longleftrightarrow> \<not> (Eem (finalized_tower s tower) + Ehad (finalized_tower s tower) > 0
               \<and> fTowerPhotonHits s > 0 \<and> fTowerTrackHits s = 0))"
  using FinalizeTower_photons [OF assms] by simp

theorem FinalizeTower_photon_iff_witness:
  "fTower photon_tower = Some NewCandidate
   \<and> fPhotonOutputArray (FinalizeTower photon_tower) = [finalized_tower photon_tower NewCandidate]
   \<and> Eem (finalized_tower photon_tower NewCandidate) = 10"
proof -
  have t: "fTower photon_tower = Some NewCandidate"
    by (simp add: photon_tower_def small_calorimeter_def)
  have e: "Eem (finalized_tower photon_tower NewCandidate) = 10
     \<and> Ehad (finalized_tower photon_tower NewCandidate) = 0"
    by (simp add: photon_tower_def calorimeter_eval)
  have "fPhotonOutputArray (FinalizeTower photon_tower)
      = fPhotonOutputArray photon_tower @ [finalized_tower photon_tower NewCandidate]"
    using FinalizeTower_photon_iff [OF t] e
    by (simp add: photon_tower_def small_calorimeter_def)
  then show ?thesis using t e by (simp add: photon_tower_def small_calorimeter_def)
qed

text \<open>
  C8 as the spec states it fails. A photon of energy 0 is a hit of its tower: when the
  last tower is finalized it has one photon hit and no track hit, and yet the photons
  array stays empty, because the energy of the tower is not positive.
\<close>

theorem photon_tower_without_energy_counterexample:
  "fTower (projr (Calorimeter_scan soft_photon_event)) \<noteq> None
   \<and> fTowerPhotonHits (projr (Calorimeter_scan soft_photon_event)) = 1
   \<and> fTowerTrackHits (projr (Calorimeter_scan soft_photon_event)) = 0
   \<and> Calorimeter_Process soft_photon_event
       = Inr (FinalizeTower (projr (Calorimeter_scan soft_photon_event)))
   \<and> fPhotonOutputArray (FinalizeTower (projr (Calorimeter_scan soft_photon_event))) = []"
  by (simp add: soft_photon_event_def calorimeter_eval)

text \<open>
  C10. A finalized tower is appended to the towers array exactly when its smeared energy
  \<open>Eem + Ehad\<close> is strictly positive; when it is not, the tower is added neither to the
  towers nor to the photons array; in both cases the tracks of the tower are appended,
  as they are, to the eflowTracks array.
\<close>

theorem FinalizeTower_energy_gate:
  assumes "fTower s = Some tower"
  shows "(fTowerOutputArray (FinalizeTower s) =
            (if Eem (finalized_tower s tower) + Ehad (finalized_tower s tower) > 0
             then fTowerOutputArray s @ [finalized_tower s tower] else fTowerOutputArray s))
       \<and> (\<not> Eem (finalized_tower s tower) + Ehad (finalized_tower s tower) > 0
            \<longrightarrow> fPhotonOutputArray (FinalizeTower s) = fPhotonOutputArray s)
       \<and> fEFlowTrackOutputArray (FinalizeTower s) = fEFlowTrackOutputArray s @ fTowerTrackArray s"
  using FinalizeTower_towers [OF assms] FinalizeTower_photons [OF assms]
    FinalizeTower_eflowTracks [OF assms]
  by simp

theorem FinalizeTower_energy_gate_witness:
  "fTower track_only_tower = Some NewCandidate
   \<and> \<not> Eem (finalized_tower track_only_tower NewCandidate)
        + Ehad (finalized_tower track_only_tower NewCandidate) > 0
   \<and> fTowerOutputArray (FinalizeTower track_only_tower) = []
   \<and> fPhotonOutputArray (FinalizeTower track_only_tower) = []
   \<and> fEFlowTrackOutputArray (FinalizeTower track_only_tower) = [particle_at 211 (1/2) (1/2) 10]"
proof -
  have t: "fTower track_only_tower = Some NewCandidate"
    by (simp add: track_only_tower_def small_calorimeter_def)
  have e: "Eem (finalized_tower track_only_tower NewCandidate) = 0
     \<and> Ehad (finalized_tower track_only_tower NewCandidate) = 0"
    by (simp add: track_only_tower_def calorimeter_eval)
  show ?thesis
    using FinalizeTower_energy_gate [OF t] t e
    by (simp add: track_only_tower_def small_calorimeter_def)
qed

section \<open>FastJetFinder: the distances of the constituents\<close>

lemma constituent_loop_Cons:
  "constituent_loop inputArray momentum (pj # rest) (detaMax, dphiMax, candidate) =
     (case At inputArray (user_index pj) of
        None \<Rightarrow> Inl NullPointer
      | Some constituent \<Rightarrow>
          constituent_loop inputArray momentum rest
            (max detaMax \<bar>Eta momentum - Eta (Momentum constituent)\<bar>,
             max dphiMax \<bar>DeltaPhi_of momentum (Momentum constituent)\<bar>,
             AddCandidate (nat (user_index pj)) candidate))"
  by (simp add: Let_def max_def split: option.splits)

lemma Max_insert_max:
  "finite S \<Longrightarrow> Max (insert (max a b) S) = max (a::real) (Max (insert b S))"
  by (cases "S = {}") (simp_all add: max.assoc)

lemma At_Some: "At arr i = Some x \<Longrightarrow> x = arr ! nat i"
  by (auto simp: At_def split: if_splits)

lemma constituent_loop_result:
  "constituent_loop inputArray momentum cs (detaMax, dphiMax, candidate)
     = Inr (detaMax', dphiMax', candidate')
   \<Longrightarrow> candidate' = candidate\<lparr>fArray := fArray candidate @ map (\<lambda>pj. nat (user_index pj)) cs\<rparr>
     \<and> detaMax' = Max (insert detaMax
          ((\<lambda>pj. \<bar>Eta momentum - Eta (Momentum (inputArray ! nat (user_index pj)))\<bar>) ` set cs))
     \<and> dphiMax' = Max (insert dphiMax
          ((\<lambda>pj. \<bar>DeltaPhi_of momentum (Momentum (inputArray ! nat (user_index pj)))\<bar>) ` set cs))"
proof (induction cs arbitrary: detaMax dphiMax candidate)
  case Nil
  then show ?case by simp
next
  case (Cons pj rest)
  obtain constituent where c: "At inputArray (user_index pj) = Some constituent"
    using Cons.prems by (auto split: option.splits)
  note c' = At_Some [OF c]
  have "constituent_loop inputArray momentum rest
            (max detaMax \<bar>Eta momentum - Eta (Momentum constituent)\<bar>,
             max dphiMax \<bar>DeltaPhi_of momentum (Momentum constituent)\<bar>,
             AddCandidate (nat (user_index pj)) candidate) = Inr (detaMax', dphiMax', candidate')"
    using Cons.prems c unfolding constituent_loop_Cons by simp
  from Cons.IH [OF this]
  show ?case
    unfolding c'
    by (simp add: AddCandidate_def Max_insert_max)
qed

text \<open>
  What the code computes: the \<open>DeltaEta\<close> and \<open>DeltaPhi\<close> of a jet are the maxima of the
  distances of its own constituents and of the maxima handed over by the jets before it.
\<close>

lemma export_jet_Delta:
  assumes "export_jet lib f (detaMax, dphiMax) (jet, cs) = Inr ((detaMax', dphiMax'), candidate)"
    and "cs \<noteq> []"
  shows "DeltaEta candidate = max detaMax (own_DeltaEta (fInputArray f) (jet, cs))
       \<and> DeltaPhi candidate = max dphiMax (own_DeltaPhi (fInputArray f) (jet, cs))
       \<and> detaMax' = DeltaEta candidate \<and> dphiMax' = DeltaPhi candidate"
proof -
  obtain c0 where l: "constituent_loop (fInputArray f) (pj_momentum jet) cs
        (detaMax, dphiMax, NewCandidate) = Inr (detaMax', dphiMax', c0)"
    and c: "candidate = (if Pt (pj_momentum jet) > 200
        then substructure lib jet (c0\<lparr>Momentum := pj_momentum jet,
               Area := (if fAreaDefinition f then area_4vector lib jet else zero_vector),
               DeltaEta := detaMax', DeltaPhi := dphiMax'\<rparr>)
        else c0\<lparr>Momentum := pj_momentum jet,
               Area := (if fAreaDefinition f then area_4vector lib jet else zero_vector),
               DeltaEta := detaMax', DeltaPhi := dphiMax'\<rparr>)"
    using assms(1) by (auto simp: export_jet_def Let_def split: sum.splits)
  have d: "DeltaEta candidate = detaMax'" "DeltaPhi candidate = dphiMax'"
    unfolding c by (simp_all add: substructure_def Let_def split: prod.splits)
  have ne: "set cs \<noteq> {}" using assms(2) by simp
  show ?thesis
    using constituent_loop_result [OF l] ne
    by (simp add: d own_DeltaEta_def own_DeltaPhi_def)
qed

text \<open>
  C2 fails on the code: \<open>detaMax\<close> and \<open>dphiMax\<close> are set to 0 once, before the loop over
  the jets, and never again. In the event with a jet of two towers at distances
  \<open>0.1\<close> and \<open>0.3\<close> from its axis and a second jet made of one tower on its axis, the
  second jet gets \<open>DeltaEta = 0.3\<close>, the value of the first jet, although the maximum
  over its own constituents is 0.
\<close>

theorem second_jet_DeltaEta_of_first_jet:
  "FastJetFinder_Process two_jet_clustering two_jet_event
     = Inr (projr (FastJetFinder_Process two_jet_clustering two_jet_event))
   \<and> map fArray (fOutputArray (projr (FastJetFinder_Process two_jet_clustering two_jet_event)))
       = [[0, 1], [2]]
   \<and> DeltaEta (fOutputArray (projr (FastJetFinder_Process two_jet_clustering two_jet_event)) ! 1)
       = 3 / 10
   \<and> own_DeltaEta (fInputArray two_jet_event)
        (inclusive_jets two_jet_clustering
           (input_loop (fKeepPileUp two_jet_event) 0 (fInputArray two_jet_event)) ! 1) = 0"
  by (simp add: FastJetFinder_Process_def two_jet_clustering_def two_jet_event_def
      export_jet_def tower_at_def SetPtEtaPhiE_def At_def DeltaPhi_of_def Phi_mpi_pi_def
      Let_def AddCandidate_def NewCandidate_def zero_vector_def constituent_loop_Cons
      own_DeltaEta_def)

section \<open>FastJetFinder: substructure\<close>

lemma largest_mass_Max:
  "largest_mass lib subjets a = Max (insert a (pj_m lib ` set subjets))"
proof (induction subjets arbitrary: a)
  case Nil
  then show ?case by simp
next
  case (Cons subjet rest)
  have "(if pj_m lib subjet > a then pj_m lib subjet else a) = max a (pj_m lib subjet)"
    by (simp add: max_def)
  then show ?case
    using Cons.IH [of "max a (pj_m lib subjet)"] by (simp add: Max_insert_max)
qed

lemma export_jet_candidate:
  assumes "export_jet lib f maxima (jet, cs) = Inr (maxima', candidate)"
  shows "\<exists>c1. TrimmedMass c1 = 0 \<and> NSubJets c1 = 0 \<and> MassDrop c1 = 0
            \<and> Tau1 c1 = 0 \<and> Tau2 c1 = 0 \<and> Tau3 c1 = 0
            \<and> WTag c1 = 0 \<and> TopTag c1 = 0 \<and> HTag c1 = 0
            \<and> candidate = (if Pt (pj_momentum jet) > 200 then substructure lib jet c1 else c1)"
proof -
  obtain detaMax dphiMax where m: "maxima = (detaMax, dphiMax)" by (cases maxima)
  obtain detaMax' dphiMax' c0 where l: "constituent_loop (fInputArray f) (pj_momentum jet) cs
        (detaMax, dphiMax, NewCandidate) = Inr (detaMax', dphiMax', c0)"
    and c: "candidate = (if Pt (pj_momentum jet) > 200
        then substructure lib jet (c0\<lparr>Momentum := pj_momentum jet,
               Area := (if fAreaDefinition f then area_4vector lib jet else zero_vector),
               DeltaEta := detaMax', DeltaPhi := dphiMax'\<rparr>)
        else c0\<lparr>Momentum := pj_momentum jet,
               Area := (if fAreaDefinition f then area_4vector lib jet else zero_vector),
               DeltaEta := detaMax', DeltaPhi := dphiMax'\<rparr>)"
    using assms unfolding m by (auto simp: export_jet_def Let_def split: sum.splits)
  have c0: "c0 = NewCandidate\<lparr>fArray := fArray NewCandidate @ map (\<lambda>pj. nat (user_index pj)) cs\<rparr>"
    using constituent_loop_result [OF l] by blast
  show ?thesis
    by (rule exI [of _ "c0\<lparr>Momentum := pj_momentum jet,
               Area := (if fAreaDefinition f then area_4vector lib jet else zero_vector),
               DeltaEta := detaMax', DeltaPhi := dphiMax'\<rparr>"])
       (simp add: c c0 NewCandidate_def)
qed

lemma substructure_eq:
  "substructure lib jet c =
     (let trimmedMass = max 0 (pj_m lib (fst (trimmer lib jet)));
          n = length (snd (trimmer lib jet));
          massdrop = (if trimmedMass = 0 then 1
                      else Max (insert 0 (pj_m lib ` set (snd (trimmer lib jet)))) / trimmedMass)
      in c\<lparr>TrimmedMass := trimmedMass, NSubJets := n, MassDrop := massdrop,
            Tau1 := nSub lib 1 jet, Tau2 := nSub lib 2 jet, Tau3 := nSub lib 3 jet,
            WTag := (if massdrop < 0.4 \<and> 60 < trimmedMass \<and> trimmedMass < 120 then 1 else WTag c),
            TopTag := (if n \<ge> 3 \<and> 140 < trimmedMass \<and> trimmedMass < 230 then 1 else TopTag c),
            HTag := (if massdrop < 0.4 \<and> 100 < trimmedMass \<and> trimmedMass < 140 then 1 else HTag c)\<rparr>)"
proof -
  obtain trimmed_jet kept_subjets where t: "trimmer lib jet = (trimmed_jet, kept_subjets)"
    by (cases "trimmer lib jet")
  define trimmedMass where "trimmedMass = max 0 (pj_m lib trimmed_jet)"
  define massdrop where "massdrop = (if trimmedMass = 0 then 1
                      else Max (insert 0 (pj_m lib ` set kept_subjets)) / trimmedMass)"
  have tm: "(if pj_m lib trimmed_jet < 0 then 0 else pj_m lib trimmed_jet) = trimmedMass"
    by (simp add: trimmedMass_def max_def)
  have md: "(if trimmedMass \<noteq> 0 then largest_mass lib kept_subjets 0 / trimmedMass else 1) = massdrop"
    by (simp add: massdrop_def largest_mass_Max)
  have lhs: "substructure lib jet c =
     (let c1 = c\<lparr>TrimmedMass := trimmedMass, NSubJets := length kept_subjets,
                         MassDrop := massdrop,
                         Tau1 := nSub lib 1 jet, Tau2 := nSub lib 2 jet, Tau3 := nSub lib 3 jet\<rparr>;
          c2 = (if massdrop < 0.4 \<and> 60 < trimmedMass \<and> trimmedMass < 120
                then c1\<lparr>WTag := 1\<rparr> else c1);
          c3 = (if length kept_subjets \<ge> 3 \<and> 140 < trimmedMass \<and> trimmedMass < 230
                then c2\<lparr>TopTag := 1\<rparr> else c2)
      in if massdrop < 0.4 \<and> 100 < trimmedMass \<and> trimmedMass < 140
         then c3\<lparr>HTag := 1\<rparr> else c3)"
    unfolding substructure_def t prod.case Let_def tm md ..
  show ?thesis
    unfolding lhs t fst_conv snd_conv Let_def trimmedMass_def [symmetric] massdrop_def [symmetric]
    by (cases "massdrop < 0.4 \<and> 60 < trimmedMass \<and> trimmedMass < 120";
        cases "length kept_subjets \<ge> 3 \<and> 140 < trimmedMass \<and> trimmedMass < 230";
        cases "massdrop < 0.4 \<and> 100 < trimmedMass \<and> trimmedMass < 140")
       (simp_all only: if_True if_False, simp_all)
qed

lemma substructure_fields:
  assumes "TrimmedMass c1 = 0 \<and> NSubJets c1 = 0 \<and> MassDrop c1 = 0
            \<and> Tau1 c1 = 0 \<and> Tau2 c1 = 0 \<and> Tau3 c1 = 0
            \<and> WTag c1 = 0 \<and> TopTag c1 = 0 \<and> HTag c1 = 0"
    and "candidate = substructure lib jet c1"
  shows "TrimmedMass candidate = max 0 (pj_m lib (fst (trimmer lib jet)))"
    and "NSubJets candidate = length (snd (trimmer lib jet))"
    and "MassDrop candidate =
           (if TrimmedMass candidate = 0 then 1
            else Max (insert 0 (pj_m lib ` set (snd (trimmer lib jet)))) / TrimmedMass candidate)"
    and "Tau1 candidate = nSub lib 1 jet"
    and "Tau2 candidate = nSub lib 2 jet"
    and "Tau3 candidate = nSub lib 3 jet"
    and "WTag candidate =
           (if MassDrop candidate < 0.4 \<and> 60 < TrimmedMass candidate \<and> TrimmedMass candidate < 120
            then 1 else 0)"
    and "TopTag candidate =
           (if NSubJets candidate \<ge> 3 \<and> 140 < TrimmedMass candidate \<and> TrimmedMass candidate < 230
            then 1 else 0)"
    and "HTag candidate =
           (if MassDrop candidate < 0.4 \<and> 100 < TrimmedMass candidate \<and> TrimmedMass candidate < 140
            then 1 else 0)"
  using assms(1) unfolding assms(2) substructure_eq Let_def
  by simp_all

lemma export_jet_no_trimmer:
  assumes "\<not> Pt (pj_momentum jet) > 200"
  shows "export_jet (lib\<lparr>pj_m := mass, trimmer := trim, nSub := tau\<rparr>) f maxima (jet, cs)
       = export_jet lib f maxima (jet, cs)"
  using assms by (simp add: export_jet_def Let_def split: prod.splits sum.splits)

text \<open>
  C7. The substructure observables of an output jet are computed if and only if its
  \<open>pT\<close> exceeds 200. For \<open>pT \<le> 200\<close> they keep the zero defaults of a new candidate and
  the jet is the same whatever the trimmer, the mass function and the N-subjettiness of
  the library are: none of them is called. For \<open>pT > 200\<close>: \<open>TrimmedMass\<close> is the mass of
  the trimmed jet, clamped to be non-negative; \<open>NSubJets\<close> counts its pieces; \<open>MassDrop\<close>
  is the largest subjet mass (the largest of the masses of the pieces, and at least 0)
  divided by \<open>TrimmedMass\<close>, and 1 when \<open>TrimmedMass = 0\<close>; \<open>Tau1\<close>, \<open>Tau2\<close>, \<open>Tau3\<close> are the
  N-subjettiness values; and the W, top and H tags are 1 exactly under their criteria.
\<close>

theorem export_jet_substructure_gate:
  assumes "export_jet lib f maxima (jet, cs) = Inr (maxima', candidate)"
  shows "(\<not> Pt (pj_momentum jet) > 200 \<longrightarrow>
            TrimmedMass candidate = 0 \<and> NSubJets candidate = 0 \<and> MassDrop candidate = 0
          \<and> Tau1 candidate = 0 \<and> Tau2 candidate = 0 \<and> Tau3 candidate = 0
          \<and> WTag candidate = 0 \<and> TopTag candidate = 0 \<and> HTag candidate = 0
          \<and> (\<forall>mass trim tau.
                export_jet (lib\<lparr>pj_m := mass, trimmer := trim, nSub := tau\<rparr>) f maxima (jet, cs)
                  = Inr (maxima', candidate)))
       \<and> (Pt (pj_momentum jet) > 200 \<longrightarrow>
            TrimmedMass candidate = max 0 (pj_m lib (fst (trimmer lib jet)))
          \<and> NSubJets candidate = length (snd (trimmer lib jet))
          \<and> MassDrop candidate =
              (if TrimmedMass candidate = 0 then 1
               else Max (insert 0 (pj_m lib ` set (snd (trimmer lib jet)))) / TrimmedMass candidate)
          \<and> Tau1 candidate = nSub lib 1 jet
          \<and> Tau2 candidate = nSub lib 2 jet
          \<and> Tau3 candidate = nSub lib 3 jet
          \<and> WTag candidate =
              (if MassDrop candidate < 0.4 \<and> 60 < TrimmedMass candidate
                  \<and> TrimmedMass candidate < 120 then 1 else 0)
          \<and> TopTag candidate =
              (if NSubJets candidate \<ge> 3 \<and> 140 < TrimmedMass candidate
                  \<and> TrimmedMass candidate < 230 then 1 else 0)
          \<and> HTag candidate =
              (if MassDrop candidate < 0.4 \<and> 100 < TrimmedMass candidate
                  \<and> TrimmedMass candidate < 140 then 1 else 0))"
proof -
  obtain c1 where z: "TrimmedMass c1 = 0 \<and> NSubJets c1 = 0 \<and> MassDrop c1 = 0
            \<and> Tau1 c1 = 0 \<and> Tau2 c1 = 0 \<and> Tau3 c1 = 0
            \<and> WTag c1 = 0 \<and> TopTag c1 = 0 \<and> HTag c1 = 0"
    and c: "candidate = (if Pt (pj_momentum jet) > 200 then substructure lib jet c1 else c1)"
    using export_jet_candidate [OF assms] by blast
  show ?thesis
  proof (cases "Pt (pj_momentum jet) > 200")
    case True
    then have "candidate = substructure lib jet c1" using c by simp
    from substructure_fields [OF z this] True show ?thesis by simp
  next
    case False
    then have "candidate = c1" using c by simp
    with z False export_jet_no_trimmer [OF False] assms
    show ?thesis by simp
  qed
qed

theorem export_jet_substructure_gate_witness:
  "export_jet boosted_clustering boosted_event (0, 0)
       (boosted_jet, input_loop 1 0 (fInputArray boosted_event))
     = Inr (projr (export_jet boosted_clustering boosted_event (0, 0)
              (boosted_jet, input_loop 1 0 (fInputArray boosted_event))))
   \<and> Pt (pj_momentum boosted_jet) > 200
   \<and> TrimmedMass (snd (projr (export_jet boosted_clustering boosted_event (0, 0)
              (boosted_jet, input_loop 1 0 (fInputArray boosted_event))))) = 80
   \<and> MassDrop (snd (projr (export_jet boosted_clustering boosted_event (0, 0)
              (boosted_jet, input_loop 1 0 (fInputArray boosted_event))))) = 1 / 4
   \<and> export_jet boosted_clustering boosted_event (0, 0)
       (boosted_jet\<lparr>pj_momentum := SetPtEtaPhiE 200 (1/10) 0 220\<rparr>,
        input_loop 1 0 (fInputArray boosted_event))
     = Inr (projr (export_jet boosted_clustering boosted_event (0, 0)
              (boosted_jet\<lparr>pj_momentum := SetPtEtaPhiE 200 (1/10) 0 220\<rparr>,
               input_loop 1 0 (fInputArray boosted_event))))
   \<and> \<not> Pt (pj_momentum (boosted_jet\<lparr>pj_momentum := SetPtEtaPhiE 200 (1/10) 0 220\<rparr>)) > 200
   \<and> TrimmedMass (snd (projr (export_jet boosted_clustering boosted_event (0, 0)
              (boosted_jet\<lparr>pj_momentum := SetPtEtaPhiE 200 (1/10) 0 220\<rparr>,
               input_loop 1 0 (fInputArray boosted_event))))) = 0"
proof -
  define hi where "hi = projr (export_jet boosted_clustering boosted_event (0, 0)
              (boosted_jet, input_loop 1 0 (fInputArray boosted_event)))"
  define lo where "lo = projr (export_jet boosted_clustering boosted_event (0, 0)
              (boosted_jet\<lparr>pj_momentum := SetPtEtaPhiE 200 (1/10) 0 220\<rparr>,
               input_loop 1 0 (fInputArray boosted_event)))"
  have eval: "export_jet boosted_clustering boosted_event (0, 0) (j, input_loop 1 0 (fInputArray boosted_event))
     = Inr (projr (export_jet boosted_clustering boosted_event (0, 0)
              (j, input_loop 1 0 (fInputArray boosted_event))))" for j
    by (simp add: export_jet_def boosted_event_def tower_at_def At_def constituent_loop_Cons
        Let_def split: prod.splits)
  have h: "export_jet boosted_clustering boosted_event (0, 0)
       (boosted_jet, input_loop 1 0 (fInputArray boosted_event)) = Inr (fst hi, snd hi)"
    unfolding hi_def using eval [of boosted_jet] by simp
  have l: "export_jet boosted_clustering boosted_event (0, 0)
       (boosted_jet\<lparr>pj_momentum := SetPtEtaPhiE 200 (1/10) 0 220\<rparr>,
        input_loop 1 0 (fInputArray boosted_event)) = Inr (fst lo, snd lo)"
    unfolding lo_def using eval [of "boosted_jet\<lparr>pj_momentum := SetPtEtaPhiE 200 (1/10) 0 220\<rparr>"]
    by simp
  have ph: "Pt (pj_momentum boosted_jet) > 200"
    by (simp add: boosted_jet_def SetPtEtaPhiE_def)
  have pl: "\<not> Pt (pj_momentum (boosted_jet\<lparr>pj_momentum := SetPtEtaPhiE 200 (1/10) 0 220\<rparr>)) > 200"
    by (simp add: SetPtEtaPhiE_def)
  have th: "TrimmedMass (snd hi) = 80"
    using export_jet_substructure_gate [OF h] ph
    by (simp add: boosted_clustering_def)
  have mh: "MassDrop (snd hi) = 1 / 4"
    using export_jet_substructure_gate [OF h] ph th
    by (simp add: boosted_clustering_def)
  have tl: "TrimmedMass (snd lo) = 0"
    using export_jet_substructure_gate [OF l] pl by blast
  show ?thesis
    using h l ph pl th mh tl unfolding hi_def lo_def by simp
qed

section \<open>BTagging: the heaviest flavour\<close>

lemma Phi_mpi_pi_0: "Phi_mpi_pi 0 = 0"
  by (simp add: Phi_mpi_pi_def)

lemma DeltaR_same_phi: "Phi v = Phi w \<Longrightarrow> DeltaR v w = \<bar>Eta v - Eta w\<bar>"
  by (simp add: DeltaR_def DeltaPhi_of_def Phi_mpi_pi_0 Let_def)

lemmas btag_eval =
  small_tagger_def parton_def central_jet_def SetPtEtaPhiE_def NewCandidate_def zero_vector_def
  GetAlgoFlavour_def algo_record_def nparton_daughters_def At_def Let_def DeltaR_same_phi
  GetPhysicsFlavour_def mother_is_initial_def GetSubArray_def
  BTaggingPartonClassifier_GetCategory_def BTaggingLHEPartonClassifier_GetCategory_def

text \<open>
  C3 fails on the code. Line 330 gives \<open>tempParticle\<close> to every c quark in the cone,
  whether or not a b quark has been found before (its comment says "if not yet found"),
  so the last b or c quark of the parton array wins. With a b quark and then a c quark
  in the cone of the jet, \<open>flavourHeaviest\<close> and \<open>flavourAlgo\<close> are 4, not 5; with the
  same two partons in the other order \<open>flavourHeaviest\<close> is 5.
\<close>

theorem c_quark_after_b_quark_is_heaviest:
  "GetSubArray (BTaggingPartonClassifier_GetCategory b_then_c_event)
       (fPartonInputArray b_then_c_event) = Some [parton 5 2 50 (1/10), parton 4 2 30 (1/5)]
   \<and> GetSubArray (BTaggingLHEPartonClassifier_GetCategory b_then_c_event)
       (fLHEPartonInputArray b_then_c_event) = Some [parton 5 1 80 0]
   \<and> DeltaR (Momentum central_jet) (Momentum (parton 5 2 50 (1/10))) \<le> fDeltaR b_then_c_event
   \<and> GetAlgoFlavour b_then_c_event [parton 5 2 50 (1/10), parton 4 2 30 (1/5)]
        [parton 5 1 80 0] (0, 0) central_jet
      = Inr (projr (GetAlgoFlavour b_then_c_event [parton 5 2 50 (1/10), parton 4 2 30 (1/5)]
               [parton 5 1 80 0] (0, 0) central_jet))
   \<and> flavourHeaviest (projr (GetAlgoFlavour b_then_c_event
        [parton 5 2 50 (1/10), parton 4 2 30 (1/5)] [parton 5 1 80 0] (0, 0) central_jet)) = 4
   \<and> flavourAlgo (projr (GetAlgoFlavour b_then_c_event
        [parton 5 2 50 (1/10), parton 4 2 30 (1/5)] [parton 5 1 80 0] (0, 0) central_jet)) = 4
   \<and> flavourHighestPt (projr (GetAlgoFlavour b_then_c_event
        [parton 5 2 50 (1/10), parton 4 2 30 (1/5)] [parton 5 1 80 0] (0, 0) central_jet)) = 5
   \<and> flavourHeaviest (projr (GetAlgoFlavour b_then_c_event
        [parton 4 2 30 (1/5), parton 5 2 50 (1/10)] [parton 5 1 80 0] (0, 0) central_jet)) = 5"
  by (simp add: b_then_c_event_def btag_eval)

section \<open>BTagging: the physics flavour\<close>

lemma physics_LHE_loop_result:
  "physics_LHE_loop b jet lhes (nearest, dr, particle, k) = (nearest', dr', particle', k')
   \<Longrightarrow> k' = k + int (length (filter (in_cone b jet) lhes))
     \<and> particle' = (if filter (in_cone b jet) lhes = [] then particle
                     else last (filter (in_cone b jet) lhes))"
proof (induction lhes arbitrary: nearest dr particle k)
  case Nil
  then show ?case by simp
next
  case (Cons l rest)
  define n1 where "n1 = (if Status l = 1 \<and> DeltaR (Momentum jet) (Momentum l) < dr
                         then l else nearest)"
  define d1 where "d1 = (if Status l = 1 \<and> DeltaR (Momentum jet) (Momentum l) < dr
                         then DeltaR (Momentum jet) (Momentum l) else dr)"
  define p1 where "p1 = (if in_cone b jet l then l else particle)"
  define k1 where "k1 = (if in_cone b jet l then k + 1 else k)"
  have "physics_LHE_loop b jet (l # rest) (nearest, dr, particle, k)
      = physics_LHE_loop b jet rest (n1, d1, p1, k1)"
    unfolding n1_def d1_def p1_def k1_def in_cone_def
    by (simp only: physics_LHE_loop.simps Let_def)
  then have "physics_LHE_loop b jet rest (n1, d1, p1, k1) = (nearest', dr', particle', k')"
    using Cons.prems by simp
  from Cons.IH [OF this] show ?case
    by (simp add: p1_def k1_def)
qed

lemma contamination_check_result:
  "contamination_check particles initial cs flavour = Inr r
   \<Longrightarrow> r = (if \<bar>PID initial\<bar> = 4
                \<and> (\<exists>c \<in> set cs. \<bar>PID c\<bar> \<noteq> 4 \<and> mother_is_initial particles initial c = Inr False)
             then 0 else flavour)"
proof (induction cs)
  case Nil
  then show ?case by simp
next
  case (Cons c rest)
  show ?case
  proof (cases "mother_is_initial particles initial c")
    case (Inl e)
    then show ?thesis using Cons.prems by simp
  next
    case (Inr ok)
    show ?thesis
    proof (cases "ok \<or> \<bar>PID initial\<bar> \<noteq> 4 \<or> \<bar>PID c\<bar> = 4")
      case True
      then have "contamination_check particles initial rest flavour = Inr r"
        using Cons.prems Inr by (cases ok) (auto split: if_splits)
      from Cons.IH [OF this] True Inr show ?thesis by auto
    next
      case False
      then have "r = 0" using Cons.prems Inr by (cases ok) (auto split: if_splits)
      then show ?thesis using False Inr by auto
    qed
  qed
qed

text \<open>
  C4 (as the code has it). \<open>flavourPhysics\<close> is 0 unless exactly one status-1 LHE parton
  lies within \<open>fDeltaR\<close> of the jet. When exactly one does, \<open>flavourPhysics\<close> is the
  absolute PID of that parton, unless that parton is a c quark (\<open>|PID| = 4\<close>) and the
  contamination set holds a parton that is not a c quark and whose mother is not that
  initial parton: then it is 0. When the initial parton is not a c quark no contaminant
  resets the flavour, and a contaminant of the same flavour never does.
\<close>

theorem GetPhysicsFlavour_value:
  assumes "GetPhysicsFlavour b partonArray LHEpartonArray jet = Inr jet'"
  shows "flavourPhysics jet' =
     (if length (filter (in_cone b jet) LHEpartonArray) \<noteq> 1 then 0
      else if \<bar>PID (hd (filter (in_cone b jet) LHEpartonArray))\<bar> = 4
              \<and> (\<exists>c \<in> set (contamination_loop jet partonArray LHEpartonArray []).
                    \<bar>PID c\<bar> \<noteq> 4
                    \<and> mother_is_initial (fParticleInputArray_BTagging b)
                          (hd (filter (in_cone b jet) LHEpartonArray)) c = Inr False)
           then 0
           else \<bar>PID (hd (filter (in_cone b jet) LHEpartonArray))\<bar>)"
proof -
  define inCone where "inCone = filter (in_cone b jet) LHEpartonArray"
  define cs where "cs = contamination_loop jet partonArray LHEpartonArray []"
  obtain nearest dr particle k where
    l: "physics_LHE_loop b jet LHEpartonArray (NewCandidate, 1000, NewCandidate, 0)
          = (nearest, dr, particle, k)"
    by (metis prod_cases4)
  have k: "k = int (length inCone)"
    and p: "particle = (if inCone = [] then NewCandidate else last inCone)"
    using physics_LHE_loop_result [OF l] by (simp_all add: inCone_def)
  show ?thesis
  proof (cases "length inCone = 1")
    case False
    then have "k \<noteq> 1" using k by simp
    then have "flavourPhysics jet' = 0"
      using assms l by (auto simp: GetPhysicsFlavour_def Let_def)
    then show ?thesis using False by (simp add: inCone_def)
  next
    case True
    then obtain x where x: "inCone = [x]"
      by (cases inCone) auto
    have px: "particle = x" "hd inCone = x" using p x by simp_all
    have k1: "k = 1" using k True by simp
    show ?thesis
    proof (cases "cs = []")
      case True
      then have "flavourPhysics jet' = \<bar>PID x\<bar>"
        using assms l k1 px by (auto simp: GetPhysicsFlavour_def Let_def cs_def)
      then show ?thesis
        using True x unfolding inCone_def [symmetric] cs_def [symmetric] by simp
    next
      case False
      then obtain r where r: "contamination_check (fParticleInputArray_BTagging b) x cs \<bar>PID x\<bar> = Inr r"
        and f: "flavourPhysics jet' = r"
        using assms l k1 px
        by (auto simp: GetPhysicsFlavour_def Let_def cs_def split: sum.splits)
      show ?thesis
        using contamination_check_result [OF r] f x
        unfolding inCone_def [symmetric] cs_def [symmetric] by simp
    qed
  qed
qed

theorem GetPhysicsFlavour_value_witness:
  "GetPhysicsFlavour c_with_b_contamination (fPartonInputArray c_with_b_contamination)
       (fLHEPartonInputArray c_with_b_contamination) central_jet
     = Inr (projr (GetPhysicsFlavour c_with_b_contamination
              (fPartonInputArray c_with_b_contamination)
              (fLHEPartonInputArray c_with_b_contamination) central_jet))
   \<and> flavourPhysics (projr (GetPhysicsFlavour c_with_b_contamination
        (fPartonInputArray c_with_b_contamination)
        (fLHEPartonInputArray c_with_b_contamination) central_jet)) = 0"
proof -
  have h: "GetPhysicsFlavour c_with_b_contamination (fPartonInputArray c_with_b_contamination)
       (fLHEPartonInputArray c_with_b_contamination) central_jet
     = Inr (projr (GetPhysicsFlavour c_with_b_contamination
              (fPartonInputArray c_with_b_contamination)
              (fLHEPartonInputArray c_with_b_contamination) central_jet))"
    by (simp add: c_with_b_contamination_def btag_eval)
  have "flavourPhysics (projr (GetPhysicsFlavour c_with_b_contamination
        (fPartonInputArray c_with_b_contamination)
        (fLHEPartonInputArray c_with_b_contamination) central_jet)) = 0"
    unfolding GetPhysicsFlavour_value [OF h]
    by (simp add: c_with_b_contamination_def in_cone_def btag_eval)
  with h show ?thesis by blast
qed

text \<open>
  C4 as the spec states it fails. The one LHE parton in the cone is a b quark; the
  contamination set holds a c quark, of a different flavour, whose mother is a gluon far
  from the b quark; and yet \<open>flavourPhysics\<close> is 5: the code resets the flavour only when
  the initial parton is a c quark.
\<close>

theorem b_quark_keeps_flavour_counterexample:
  "filter (in_cone b_with_c_contamination central_jet)
       (fLHEPartonInputArray b_with_c_contamination) = [parton 5 1 80 0]
   \<and> contamination_loop central_jet (fPartonInputArray b_with_c_contamination)
       (fLHEPartonInputArray b_with_c_contamination) []
       = [(parton 4 2 20 (1/10))\<lparr>M1 := 1, D1 := 2\<rparr>]
   \<and> mother_is_initial (fParticleInputArray_BTagging b_with_c_contamination)
       (parton 5 1 80 0) ((parton 4 2 20 (1/10))\<lparr>M1 := 1, D1 := 2\<rparr>) = Inr False
   \<and> flavourPhysics (projr (GetPhysicsFlavour b_with_c_contamination
        (fPartonInputArray b_with_c_contamination)
        (fLHEPartonInputArray b_with_c_contamination) central_jet)) = 5"
  by (simp add: b_with_c_contamination_def in_cone_def btag_eval)

section \<open>BTagging: the tag bits\<close>

lemma Init_efficiency_0: "Init_efficiency param 0 \<noteq> None"
  by (simp add: Init_efficiency_def Let_def)

lemma tag_value:
  assumes "fEfficiencyMap b = Init_efficiency param"
  shows "tag b r jet flavour w
       = Inr (w OR push_bit (fBitNumber b) (of_bool (r \<le> efficiency_at b jet flavour)))"
proof -
  obtain f0 where f0: "Init_efficiency param 0 = Some f0"
    using Init_efficiency_0 [of param] by blast
  have "\<exists>formula. find_formula (Init_efficiency param) flavour = Inr formula"
    by (cases "Init_efficiency param flavour") (simp_all add: find_formula_def f0)
  then obtain formula where f: "find_formula (fEfficiencyMap b) flavour = Inr formula"
    unfolding assms by blast
  show ?thesis
    by (simp add: tag_def efficiency_at_def f)
qed

lemma bit_tag:
  "n < 32 \<Longrightarrow> bit (w OR push_bit n (of_bool P) :: 32 word) k \<longleftrightarrow> bit w k \<or> (k = n \<and> P)"
  by (cases P) (auto simp: bit_simps)

lemma tag_jet_value:
  assumes "fEfficiencyMap b = Init_efficiency param"
  shows "tag_jet b r jet =
     Inr (jet\<lparr>BTagHeaviest := BTagHeaviest jet OR push_bit (fBitNumber b)
                 (of_bool (r \<le> efficiency_at b jet (flavourHeaviest jet))),
              BTagHighestPt := BTagHighestPt jet OR push_bit (fBitNumber b)
                 (of_bool (r \<le> efficiency_at b jet (flavourHighestPt jet))),
              BTagNearest2 := BTagNearest2 jet OR push_bit (fBitNumber b)
                 (of_bool (r \<le> efficiency_at b jet (flavourNearest2 jet))),
              BTagNearest3 := BTagNearest3 jet OR push_bit (fBitNumber b)
                 (of_bool (r \<le> efficiency_at b jet (flavourNearest3 jet))),
              BTagAlgo := BTagAlgo jet OR push_bit (fBitNumber b)
                 (of_bool (r \<le> efficiency_at b jet (flavourAlgo jet))),
              BTagPhysics := BTagPhysics jet OR push_bit (fBitNumber b)
                 (of_bool (r \<le> efficiency_at b jet (flavourPhysics jet))),
              BTagDefault := BTagDefault jet OR push_bit (fBitNumber b)
                 (of_bool (r \<le> efficiency_at b jet (flavourDefault jet)))\<rparr>)"
  unfolding tag_jet_def tag_value [OF assms] then_tag_def by simp

lemma BTagging_jet_loop_draws:
  "BTagging_jet_loop b partonArray LHEpartonArray uninit uniform n jets = Inr (jets', n')
   \<Longrightarrow> n' = n + length jets \<and> length jets' = length jets"
proof (induction jets arbitrary: n jets')
  case Nil
  then show ?case by simp
next
  case (Cons jet rest)
  then obtain js where "BTagging_jet_loop b partonArray LHEpartonArray uninit uniform (Suc n) rest = Inr (js, n')"
    and "length jets' = Suc (length js)"
    by (auto simp: then_tag_def split: sum.splits prod.splits)
  with Cons.IH [of "Suc n" js] show ?case by simp
qed

text \<open>
  C5 (as the code has it). For every jet one uniform random number \<open>r\<close> is drawn and
  used for all seven variants. Each tag field is OR-ed with the bit: after the jet is
  processed, bit \<open>fBitNumber\<close> of a tag field is set if and only if it was set before or
  \<open>r\<close> is at most the efficiency of the variant's flavour (the formula keyed by the
  flavour, by 0 when there is none) at the jet's \<open>(pT, eta)\<close>; so for a jet that comes
  with the bit clear, it is set if and only if \<open>r \<le>\<close> that efficiency. No other bit of a
  tag field and no flavour is changed. (Bit numbers below 32.)
\<close>

theorem tag_jet_bits:
  assumes "fEfficiencyMap b = Init_efficiency param" and "fBitNumber b < 32"
  shows "(\<exists>jet'. tag_jet b r jet = Inr jet'
     \<and> (\<forall>(flavour, btag) \<in> set flavour_variants.
          flavour jet' = flavour jet
        \<and> (\<forall>n. n \<noteq> fBitNumber b \<longrightarrow> bit (btag jet') n = bit (btag jet) n)
        \<and> (bit (btag jet') (fBitNumber b)
            \<longleftrightarrow> bit (btag jet) (fBitNumber b) \<or> r \<le> efficiency_at b jet (flavour jet))))
   \<and> (\<forall>partonArray LHEpartonArray uninit uniform n jets jets' n'.
         BTagging_jet_loop b partonArray LHEpartonArray uninit uniform n jets = Inr (jets', n')
         \<longrightarrow> n' = n + length jets \<and> length jets' = length jets)"
proof (intro conjI allI impI)
  show "\<exists>jet'. tag_jet b r jet = Inr jet'
     \<and> (\<forall>(flavour, btag) \<in> set flavour_variants.
          flavour jet' = flavour jet
        \<and> (\<forall>n. n \<noteq> fBitNumber b \<longrightarrow> bit (btag jet') n = bit (btag jet) n)
        \<and> (bit (btag jet') (fBitNumber b)
            \<longleftrightarrow> bit (btag jet) (fBitNumber b) \<or> r \<le> efficiency_at b jet (flavour jet)))"
    unfolding tag_jet_value [OF assms(1)] flavour_variants_def
    by (simp add: bit_tag [OF assms(2)])
next
  fix partonArray LHEpartonArray uninit uniform n jets jets' n'
  assume "BTagging_jet_loop b partonArray LHEpartonArray uninit uniform n jets = Inr (jets', n')"
  then show "n' = n + length jets" "length jets' = length jets"
    using BTagging_jet_loop_draws by blast+
qed


theorem tag_jet_bits_witness:
  "fEfficiencyMap small_tagger
     = Init_efficiency [(0, \<lambda>pt eta phi energy. 1/100), (4, \<lambda>pt eta phi energy. 1/5),
                        (5, \<lambda>pt eta phi energy. 7/10)]
   \<and> fBitNumber small_tagger < 32
   \<and> tag_jet small_tagger (1/2) (central_jet\<lparr>flavourHeaviest := 5\<rparr>)
       = Inr (projr (tag_jet small_tagger (1/2) (central_jet\<lparr>flavourHeaviest := 5\<rparr>)))
   \<and> bit (BTagHeaviest (projr (tag_jet small_tagger (1/2) (central_jet\<lparr>flavourHeaviest := 5\<rparr>)))) 0
   \<and> \<not> bit (BTagAlgo (projr (tag_jet small_tagger (1/2) (central_jet\<lparr>flavourHeaviest := 5\<rparr>)))) 0"
proof -
  have m: "fEfficiencyMap small_tagger
     = Init_efficiency [(0, \<lambda>pt eta phi energy. 1/100), (4, \<lambda>pt eta phi energy. 1/5),
                        (5, \<lambda>pt eta phi energy. 7/10)]"
    by (simp add: small_tagger_def)
  have n: "fBitNumber small_tagger < 32" "fBitNumber small_tagger = 0"
    by (simp_all add: small_tagger_def)
  obtain jet' where j: "tag_jet small_tagger (1/2) (central_jet\<lparr>flavourHeaviest := 5\<rparr>) = Inr jet'"
    and v: "\<forall>(flavour, btag) \<in> set flavour_variants.
          flavour jet' = flavour (central_jet\<lparr>flavourHeaviest := 5\<rparr>)
        \<and> (\<forall>n. n \<noteq> fBitNumber small_tagger \<longrightarrow>
              bit (btag jet') n = bit (btag (central_jet\<lparr>flavourHeaviest := 5\<rparr>)) n)
        \<and> (bit (btag jet') (fBitNumber small_tagger)
            \<longleftrightarrow> bit (btag (central_jet\<lparr>flavourHeaviest := 5\<rparr>)) (fBitNumber small_tagger)
                \<or> 1/2 \<le> efficiency_at small_tagger (central_jet\<lparr>flavourHeaviest := 5\<rparr>)
                            (flavour (central_jet\<lparr>flavourHeaviest := 5\<rparr>)))"
    using tag_jet_bits [OF m n(1), of "1/2" "central_jet\<lparr>flavourHeaviest := 5\<rparr>"] by blast
  have e5: "efficiency_at small_tagger (central_jet\<lparr>flavourHeaviest := 5\<rparr>) 5 = 7/10"
    and e0: "efficiency_at small_tagger (central_jet\<lparr>flavourHeaviest := 5\<rparr>) 0 = 1/100"
    by (simp_all add: efficiency_at_def find_formula_def Init_efficiency_def small_tagger_def)
  have "bit (BTagHeaviest jet') 0"
    using v n(2) e5 by (simp add: flavour_variants_def central_jet_def NewCandidate_def)
  moreover have "\<not> bit (BTagAlgo jet') 0"
    using v n(2) e0 by (simp add: flavour_variants_def central_jet_def NewCandidate_def)
  ultimately show ?thesis using m n(1) j by simp
qed

text \<open>
  C5 as the spec states it fails for a jet that comes with the bit set: the random
  number \<open>0.5\<close> is above the efficiency \<open>0.01\<close> of its flavour, and bit 0 of \<open>BTagAlgo\<close>
  is still set afterwards.
\<close>

theorem tag_bit_stays_set_counterexample:
  "tag_jet small_tagger (1/2) tagged_jet = Inr (projr (tag_jet small_tagger (1/2) tagged_jet))
   \<and> bit (BTagAlgo (projr (tag_jet small_tagger (1/2) tagged_jet))) (fBitNumber small_tagger)
   \<and> \<not> 1/2 \<le> efficiency_at small_tagger tagged_jet (flavourAlgo tagged_jet)"
  by (simp add: tagged_jet_def tag_jet_def then_tag_def tag_def efficiency_at_def
      find_formula_def Init_efficiency_def btag_eval)

end
